theory Spec2Isabelle
  imports Complex_Main
begin

text \<open>
  The turn-based practice engine of the repository: the dialogue parser, the
  turn selector and the session state machine of
  \<open>services/practice-session-manager.ts\<close>, and the similarity cascade of
  \<open>services/text-similarity-service.ts\<close>. Each function of the source is a
  function of the same name here; a thrown error or a rejected promise is the
  \<open>Inl\<close> of a sum, the Firestore collection of sessions is a map that the
  operations take and return, and the scene lookup, the embedding service and
  the injected similarity service are parameters.
\<close>

section \<open>Strings\<close>

text \<open>
  A JavaScript string is a sequence of UTF-16 code units. The embedding uses
  \<^typ>\<open>string\<close>, whose characters are the code units 0 to 255: it covers the
  scripts and answers written in the Latin-1 range, where \<open>length\<close>, indexing,
  \<open>trim\<close>, the class \<open>\s\<close> and \<open>toLowerCase\<close> act on single code units.
  Within that range the class \<open>\s\<close> (and the characters \<open>trim\<close> removes) is
  TAB, LF, VT, FF, CR, SPACE and NO-BREAK SPACE, and \<open>toLowerCase\<close> moves
  A to Z and the capitals U+00C0 to U+00DE (without the multiplication sign U+00D7)
  up by 32.
\<close>

definition isWhiteSpace :: "char \<Rightarrow> bool" where
  "isWhiteSpace c = (of_char c \<in> {9, 10, 11, 12, 13, 32, 160 :: nat})"

definition toLowerChar :: "char \<Rightarrow> char" where
  "toLowerChar c =
     (let n = (of_char c :: nat)
      in if (65 \<le> n \<and> n \<le> 90) \<or> (192 \<le> n \<and> n \<le> 222 \<and> n \<noteq> 215)
         then char_of (n + 32) else c)"

definition toLowerCase :: "string \<Rightarrow> string" where
  "toLowerCase s = map toLowerChar s"

definition trimStart :: "string \<Rightarrow> string" where
  "trimStart s = dropWhile isWhiteSpace s"

definition trimEnd :: "string \<Rightarrow> string" where
  "trimEnd s = rev (dropWhile isWhiteSpace (rev s))"

definition trim :: "string \<Rightarrow> string" where
  "trim s = trimEnd (trimStart s)"

text \<open>\<open>s.split(sep)\<close> for a separator of one character: never an empty array.\<close>

fun split_on :: "char \<Rightarrow> string \<Rightarrow> string list" where
  "split_on sep [] = [ [] ]"
| "split_on sep (c # cs) =
     (if c = sep then [] # split_on sep cs
      else (case split_on sep cs of
              [] \<Rightarrow> [ [c] ]
            | w # ws \<Rightarrow> (c # w) # ws))"

text \<open>\<open>s.split(/\s+/)\<close>: every maximal run of white space is one separator.\<close>

function split_ws :: "string \<Rightarrow> string list" where
  "split_ws [] = [ [] ]"
| "split_ws (c # cs) =
     (if isWhiteSpace c then [] # split_ws (dropWhile isWhiteSpace cs)
      else (case split_ws cs of
              [] \<Rightarrow> [ [c] ]
            | w # ws \<Rightarrow> (c # w) # ws))"
  by pat_completeness auto
termination
  by (relation "measure length") (auto simp: less_Suc_eq_le length_dropWhile_le)

text \<open>\<open>parts.join(sep)\<close>.\<close>

fun join :: "string \<Rightarrow> string list \<Rightarrow> string" where
  "join sep [] = []"
| "join sep [w] = w"
| "join sep (w # v # ws) = w @ sep @ join sep (v # ws)"

definition startsWith :: "string \<Rightarrow> char \<Rightarrow> bool" where
  "startsWith s c = (case s of [] \<Rightarrow> False | d # _ \<Rightarrow> d = c)"

definition endsWith :: "string \<Rightarrow> char \<Rightarrow> bool" where
  "endsWith s c = (case rev s of [] \<Rightarrow> False | d # _ \<Rightarrow> d = c)"

definition includesChar :: "string \<Rightarrow> char \<Rightarrow> bool" where
  "includesChar s c = (c \<in> set s)"

text \<open>\<open>s.indexOf(c)\<close>, used by the source only after \<open>s.includes(c)\<close>; -1 when absent.\<close>

definition indexOf :: "string \<Rightarrow> char \<Rightarrow> int" where
  "indexOf s c = (if c \<in> set s then int (length (takeWhile (\<lambda>d. d \<noteq> c) s)) else - 1)"

text \<open>\<open>s.substring(a, b)\<close> and \<open>s.substring(a)\<close>: negative arguments count as 0,
  arguments beyond the end as the length, and the two bounds are swapped when
  out of order.\<close>

definition clampIndex :: "nat \<Rightarrow> int \<Rightarrow> nat" where
  "clampIndex n i = (if i < 0 then 0 else min (nat i) n)"

definition substring :: "string \<Rightarrow> int \<Rightarrow> int \<Rightarrow> string" where
  "substring s a b =
     (let a' = clampIndex (length s) a; b' = clampIndex (length s) b;
          lo = min a' b'; hi = max a' b'
      in take (hi - lo) (drop lo s))"

definition substringFrom :: "string \<Rightarrow> int \<Rightarrow> string" where
  "substringFrom s a = drop (clampIndex (length s) a) s"

section \<open>Dialogue parser (practice-session-manager.ts)\<close>

datatype line_type = dialogue | action | narration

text \<open>The field \<open>text\<close> of the source is \<open>line_text\<close> here.\<close>

record DialogueLine =
  line_number :: nat
  type :: line_type
  speaker :: "string option"
  line_text :: string
  is_user_line :: bool

text \<open>The body of the loop of \<open>parseSceneDialogue\<close>: the line pushed for a
  non-empty trimmed line, under the ordinal \<open>lineNumber\<close>.\<close>

definition parseLine :: "nat \<Rightarrow> string \<Rightarrow> DialogueLine" where
  "parseLine lineNumber trimmedLine =
     (if startsWith trimmedLine (CHR ''['') \<and> endsWith trimmedLine (CHR '']'')
      then \<lparr>line_number = lineNumber, type = action, speaker = None,
            line_text = trimmedLine, is_user_line = False\<rparr>
      else if includesChar trimmedLine (CHR '':'')
      then (let colonIndex = indexOf trimmedLine (CHR '':'')
            in \<lparr>line_number = lineNumber, type = dialogue,
                 speaker = Some (trim (substring trimmedLine 0 colonIndex)),
                 line_text = trim (substringFrom trimmedLine (colonIndex + 1)),
                 is_user_line = False\<rparr>)
      else \<lparr>line_number = lineNumber, type = narration, speaker = None,
            line_text = trimmedLine, is_user_line = False\<rparr>)"

text \<open>The loop over \<open>textLines\<close>, with the counter \<open>lineNumber\<close>: an empty
  trimmed line is skipped (\<open>continue\<close>) and leaves the counter alone.\<close>

fun parseLoop :: "string list \<Rightarrow> nat \<Rightarrow> DialogueLine list" where
  "parseLoop [] lineNumber = []"
| "parseLoop (line # textLines) lineNumber =
     (let trimmedLine = trim line
      in if trimmedLine = [] then parseLoop textLines lineNumber
         else parseLine lineNumber trimmedLine # parseLoop textLines (lineNumber + 1))"

definition parseSceneDialogue :: "string \<Rightarrow> DialogueLine list" where
  "parseSceneDialogue sceneText = parseLoop (split_on (CHR 0x0A) sceneText) 1"

text \<open>\<open>filterUserLines\<close>: the dialogue lines of the practised character,
  compared in lower case; a line without speaker never matches.\<close>

definition filterUserLines :: "DialogueLine list \<Rightarrow> string \<Rightarrow> DialogueLine list" where
  "filterUserLines lines character =
     (let characterLower = toLowerCase character
      in map (\<lambda>line. line\<lparr>is_user_line := True\<rparr>)
           (filter (\<lambda>line. type line = dialogue \<and>
                      (case speaker line of None \<Rightarrow> False
                       | Some sp \<Rightarrow> toLowerCase sp = characterLower)) lines))"

text \<open>\<open>xs.findIndex(p)\<close>: the first index whose element satisfies \<open>p\<close>, or -1.\<close>

definition findIndex :: "('a \<Rightarrow> bool) \<Rightarrow> 'a list \<Rightarrow> int" where
  "findIndex p xs =
     (if list_ex p xs then int (length (takeWhile (\<lambda>x. \<not> p x) xs)) else - 1)"

text \<open>\<open>xs.slice(a, b)\<close>: a negative bound counts from the end.\<close>

definition sliceIndex :: "nat \<Rightarrow> int \<Rightarrow> nat" where
  "sliceIndex n i = (if i < 0 then nat (max (int n + i) 0) else min (nat i) n)"

definition slice :: "'a list \<Rightarrow> int \<Rightarrow> int \<Rightarrow> 'a list" where
  "slice xs a b =
     (let lo = sliceIndex (length xs) a; hi = sliceIndex (length xs) b
      in take (hi - lo) (drop lo xs))"

definition contextLine :: "DialogueLine \<Rightarrow> string" where
  "contextLine line =
     (case speaker line of
        Some sp \<Rightarrow> (if type line = dialogue \<and> sp \<noteq> [] then sp @ '': '' @ line_text line
                    else line_text line)
      | None \<Rightarrow> line_text line)"

definition getContextBefore :: "DialogueLine list \<Rightarrow> nat \<Rightarrow> nat \<Rightarrow> string" where
  "getContextBefore lines targetLineNumber contextLines =
     (let contextStart =
            max 0 (findIndex (\<lambda>line. line_number line = targetLineNumber) lines
                     - int contextLines);
          contextEnd = findIndex (\<lambda>line. line_number line = targetLineNumber) lines
      in join [CHR 0x0A]
           (map contextLine
              (filter (\<lambda>line. type line = dialogue \<or> type line = action)
                 (slice lines contextStart contextEnd))))"

section \<open>Numbers, runtime values and errors\<close>

text \<open>
  A JavaScript number is modelled as a real: the rounding of IEEE doubles is left
  out, the case distinctions and formulas of the source are kept. \<open>NaN\<close> is kept
  where the source can produce it (the cosine of two embedding vectors of
  different length), with the behaviour of \<open>Math.max\<close> and \<open>>=\<close> on it.
\<close>

datatype jsnum = NaN | Num real

definition js_max :: "jsnum \<Rightarrow> jsnum \<Rightarrow> jsnum" where
  "js_max a b = (case (a, b) of (Num x, Num y) \<Rightarrow> Num (max x y) | _ \<Rightarrow> NaN)"

definition js_ge :: "jsnum \<Rightarrow> real \<Rightarrow> bool" where
  "js_ge a y = (case a of Num x \<Rightarrow> y \<le> x | NaN \<Rightarrow> False)"

definition js_div :: "jsnum \<Rightarrow> real \<Rightarrow> jsnum" where
  "js_div a y = (case a of Num x \<Rightarrow> Num (x / y) | NaN \<Rightarrow> NaN)"

text \<open>\<open>Math.round\<close>: the nearest integer, a tie going up.\<close>

definition js_round :: "real \<Rightarrow> int" where
  "js_round x = \<lfloor>x + 1 / 2\<rfloor>"

text \<open>An argument as it arrives at run time: a string, or a value without the
  string methods, on which \<open>text.replace\<close> and \<open>text.toLowerCase\<close> raise a
  \<open>TypeError\<close>.\<close>

datatype jsarg = Str string | NotString

datatype js_error = TypeError | Error string | ServiceFailure

section \<open>Similarity service (text-similarity-service.ts)\<close>

text \<open>The feedback messages of the source begin with an emoji; they are
  named here: \<open>PerfectMatch\<close> is "Excellent! Perfect match!", \<open>VeryCloseMatch\<close>
  is "Excellent! Very close match!", \<open>GoodCloseEnough\<close> is "Good! Close enough.",
  \<open>GotTheIdea\<close> is "Not quite right, but you got the idea.", \<open>TryAgain d\<close> is
  "Try again! The correct line was: 'd'" and \<open>ErrorEvaluating\<close> is
  "Error evaluating response. Please try again.".\<close>

datatype feedback_msg =
  PerfectMatch | VeryCloseMatch | GoodCloseEnough | GotTheIdea | TryAgain string
  | ErrorEvaluating

record DetailedAnalysis =
  wordSimilarity :: real
  characterSimilarity :: real
  embeddingSimilarity :: "jsnum option"
  exactMatch :: bool
  veryCloseMatch :: bool

record SimilarityResult =
  similarity :: jsnum
  isCorrect :: bool
  feedback :: feedback_msg
  detailedAnalysis :: DetailedAnalysis

text \<open>\<open>text.replace(/\([^)]*\)/g, '')\<close> and its bracket twin: scanning from the
  left, an opening character is removed together with everything up to the
  first closing character after it; an opening character with no closing
  character after it stays.\<close>

function removeSpans :: "char \<Rightarrow> char \<Rightarrow> string \<Rightarrow> string" where
  "removeSpans opn cls [] = []"
| "removeSpans opn cls (c # cs) =
     (if c = opn
      then (case dropWhile (\<lambda>d. d \<noteq> cls) cs of
              [] \<Rightarrow> c # removeSpans opn cls cs
            | _ # rest \<Rightarrow> removeSpans opn cls rest)
      else c # removeSpans opn cls cs)"
  by pat_completeness auto
termination
proof (relation "measure (\<lambda>(opn, cls, s). length s)")
  fix opn cls :: char and c :: char and cs :: string and x21 :: char and x22 :: string
  assume "dropWhile (\<lambda>d. d \<noteq> cls) cs = x21 # x22"
  then have "length (x21 # x22) \<le> length cs"
    by (metis length_dropWhile_le)
  then show "((opn, cls, x22), opn, cls, c # cs) \<in> measure (\<lambda>(opn, cls, s). length s)"
    by simp
qed auto

definition collapseWhiteSpace :: "string \<Rightarrow> string" where
  "collapseWhiteSpace s = join '' '' (split_ws s)"

definition extractDialogueOnly :: "string \<Rightarrow> string" where
  "extractDialogueOnly text0 =
     (let cleaned = removeSpans (CHR ''('') (CHR '')'') text0;
          cleaned = removeSpans (CHR ''['') (CHR '']'') cleaned;
          cleaned = collapseWhiteSpace cleaned
      in trim cleaned)"

text \<open>The class \<open>[.!?,"'-]\<close>.\<close>

definition isPunctuation :: "char \<Rightarrow> bool" where
  "isPunctuation c =
     (c \<in> {CHR ''.'', CHR ''!'', CHR ''?'', CHR '','', CHR 0x22, CHR 0x27, CHR ''-''})"

definition cleanTextForComparison :: "string \<Rightarrow> string" where
  "cleanTextForComparison text0 =
     (let cleaned = trim (toLowerCase text0);
          cleaned = map (\<lambda>c. if c = CHR ''-'' then CHR '' '' else c)
                      (filter (\<lambda>c. \<not> isPunctuation c) cleaned)
      in collapseWhiteSpace cleaned)"

text \<open>The first loop of \<open>isVeryCloseMatch\<close>, run on strings of equal length.\<close>

definition countDifferences :: "string \<Rightarrow> string \<Rightarrow> nat" where
  "countDifferences text1 text2 =
     length (filter (\<lambda>i. text1 ! i \<noteq> text2 ! i) [0..<length text1])"

definition isVeryCloseMatch :: "string \<Rightarrow> string \<Rightarrow> bool" where
  "isVeryCloseMatch text1 text2 =
     (if length text1 = length text2 \<and> countDifferences text1 text2 \<le> 1 then True
      else if \<bar>int (length text1) - int (length text2)\<bar> = 1
      then (let shorter = (if length text1 < length text2 then text1 else text2);
                longer = (if length text1 < length text2 then text2 else text1)
            in list_ex (\<lambda>i. take i longer @ drop (i + 1) longer = shorter)
                 [0..<length longer])
      else False)"

text \<open>A \<open>Set\<close> of words is a list without repetition, in insertion order.\<close>

definition wordSet :: "string \<Rightarrow> string list" where
  "wordSet text0 = remdups (filter (\<lambda>w. length w > 0) (split_ws text0))"

definition calculateWordSimilarity :: "string \<Rightarrow> string \<Rightarrow> real" where
  "calculateWordSimilarity text1 text2 =
     (let words1 = wordSet text1; words2 = wordSet text2
      in if length words1 = 0 \<and> length words2 = 0 then 1
         else if length words1 = 0 \<or> length words2 = 0 then 0
         else (let intersection = filter (\<lambda>w. w \<in> set words2) words1;
                   union = remdups (words1 @ words2);
                   jaccard = real (length intersection) / real (length union);
                   jaccard = (if length words1 = length words2 then jaccard + 1 / 10
                              else jaccard)
               in min 1 jaccard))"

text \<open>One pass of the inner loop of the Levenshtein computation: the entries of
  \<open>currentRow\<close> after its first, from the rest of \<open>previousRow\<close> and the entry
  just pushed.\<close>

fun levenshteinRow :: "char \<Rightarrow> string \<Rightarrow> nat list \<Rightarrow> nat \<Rightarrow> nat list" where
  "levenshteinRow c (d # ds) (p0 # p1 # ps) cur =
     (let insertions = p1 + 1; deletions = cur + 1;
          substitutions = p0 + (if c \<noteq> d then 1 else 0);
          v = min (min insertions deletions) substitutions
      in v # levenshteinRow c ds (p1 # ps) v)"
| "levenshteinRow c _ _ cur = []"

fun levenshteinRows :: "string \<Rightarrow> string \<Rightarrow> nat \<Rightarrow> nat list \<Rightarrow> nat list" where
  "levenshteinRows [] text2 i previousRow = previousRow"
| "levenshteinRows (c # cs) text2 i previousRow =
     levenshteinRows cs text2 (i + 1) ((i + 1) # levenshteinRow c text2 previousRow (i + 1))"

definition calculateCharacterSimilarity :: "string \<Rightarrow> string \<Rightarrow> real" where
  "calculateCharacterSimilarity text1 text2 =
     (if text1 = [] \<or> text2 = [] then 0
      else (let t1 = (if length text1 < length text2 then text2 else text1);
                t2 = (if length text1 < length text2 then text1 else text2)
            in if length t2 = 0 then 0
               else (let previousRow = levenshteinRows t1 t2 0 [0..<length t2 + 1];
                         maxLen = max (length t1) (length t2)
                     in (real maxLen - real (last previousRow)) / real maxLen)))"

text \<open>The embedding service: a request is the list of input texts; the answer
  is a failure or the list of the \<open>embedding\<close> fields of \<open>data\<close>, one of which
  may be missing.\<close>

type_synonym embedder = "string list \<Rightarrow> js_error + real list option list"

text \<open>\<open>emb1.reduce((sum, a, i) => sum + a * emb2[i], 0)\<close>: reading \<open>emb2\<close> beyond
  its end gives \<open>undefined\<close>, and the sum is \<open>NaN\<close>.\<close>

definition dotProduct :: "real list \<Rightarrow> real list \<Rightarrow> jsnum" where
  "dotProduct emb1 emb2 =
     (if length emb1 \<le> length emb2
      then Num (sum_list (map (\<lambda>(a, b). a * b) (zip emb1 emb2)))
      else NaN)"

definition norm2 :: "real list \<Rightarrow> real" where
  "norm2 emb = sqrt (sum_list (map (\<lambda>a. a * a) emb))"

definition calculateEmbeddingSimilarity :: "embedder \<Rightarrow> string \<Rightarrow> string \<Rightarrow> js_error + jsnum" where
  "calculateEmbeddingSimilarity embedService text1 text2 =
     (case embedService [text1, text2] of
        Inl err \<Rightarrow> Inr (Num 0)
      | Inr dat \<Rightarrow>
          (case dat of
             Some emb1 # Some emb2 # _ \<Rightarrow>
               (if norm2 emb1 = 0 \<or> norm2 emb2 = 0 then Inr (Num 0)
                else Inr (js_max (Num 0)
                            (js_div (dotProduct emb1 emb2) (norm2 emb1 * norm2 emb2))))
           | _ \<Rightarrow> Inr (Num 0)))"

definition exactResult :: SimilarityResult where
  "exactResult =
     \<lparr>similarity = Num 1, isCorrect = True, feedback = PerfectMatch,
      detailedAnalysis = \<lparr>wordSimilarity = 1, characterSimilarity = 1,
        embeddingSimilarity = Some (Num 1), exactMatch = True, veryCloseMatch = True\<rparr>\<rparr>"

definition veryCloseResult :: SimilarityResult where
  "veryCloseResult =
     \<lparr>similarity = Num (95 / 100), isCorrect = True, feedback = VeryCloseMatch,
      detailedAnalysis = \<lparr>wordSimilarity = 95 / 100, characterSimilarity = 95 / 100,
        embeddingSimilarity = Some (Num (95 / 100)), exactMatch = False,
        veryCloseMatch = True\<rparr>\<rparr>"

definition errorResult :: SimilarityResult where
  "errorResult =
     \<lparr>similarity = Num 0, isCorrect = False, feedback = ErrorEvaluating,
      detailedAnalysis = \<lparr>wordSimilarity = 0, characterSimilarity = 0,
        embeddingSimilarity = None, exactMatch = False, veryCloseMatch = False\<rparr>\<rparr>"

text \<open>The end of \<open>calculateSimilarity\<close>: threshold, feedback and the result.\<close>

definition scoredResult ::
  "string \<Rightarrow> real \<Rightarrow> real \<Rightarrow> jsnum option \<Rightarrow> jsnum \<Rightarrow> SimilarityResult" where
  "scoredResult actualDialogue wordSim characterSim embeddingSim finalSimilarity =
     \<lparr>similarity = finalSimilarity,
      isCorrect = js_ge finalSimilarity (6 / 10),
      feedback =
        (if js_ge finalSimilarity (8 / 10) then PerfectMatch
         else if js_ge finalSimilarity (6 / 10) then GoodCloseEnough
         else if js_ge finalSimilarity (4 / 10) then GotTheIdea
         else TryAgain actualDialogue),
      detailedAnalysis = \<lparr>wordSimilarity = wordSim, characterSimilarity = characterSim,
        embeddingSimilarity = embeddingSim, exactMatch = False, veryCloseMatch = False\<rparr>\<rparr>"

text \<open>The \<open>try\<close> block of \<open>calculateSimilarity\<close>. The second component is the
  list of the requests sent to the embedding service.\<close>

definition calculateSimilarityTry ::
  "embedder \<Rightarrow> jsarg \<Rightarrow> jsarg \<Rightarrow> (js_error + SimilarityResult) \<times> string list list" where
  "calculateSimilarityTry embedService userInput expectedText =
     (case expectedText of
        NotString \<Rightarrow> (Inl TypeError, [])
      | Str expected \<Rightarrow>
     (let actualDialogue = extractDialogueOnly expected
      in case userInput of
        NotString \<Rightarrow> (Inl TypeError, [])
      | Str user \<Rightarrow>
     (let userClean = cleanTextForComparison user;
          expectedClean = cleanTextForComparison actualDialogue
      in if userClean = expectedClean then (Inr exactResult, [])
         else if isVeryCloseMatch userClean expectedClean then (Inr veryCloseResult, [])
         else
     (let wordSim = calculateWordSimilarity userClean expectedClean;
          characterSim = (if length expectedClean \<le> 20
                          then calculateCharacterSimilarity userClean expectedClean else 0);
          finalSimilarity = (if length expectedClean \<le> 20
                             then max wordSim characterSim else wordSim)
      in if wordSim < 4 / 10 \<and> length expectedClean > 20
         then (case calculateEmbeddingSimilarity embedService userClean expectedClean of
                 Inl err \<Rightarrow>
                   (Inr (scoredResult actualDialogue wordSim characterSim None
                           (Num finalSimilarity)),
                    [ [userClean, expectedClean] ])
               | Inr embeddingSim \<Rightarrow>
                   (Inr (scoredResult actualDialogue wordSim characterSim (Some embeddingSim)
                           (js_max (Num finalSimilarity) embeddingSim)),
                    [ [userClean, expectedClean] ]))
         else (Inr (scoredResult actualDialogue wordSim characterSim None
                      (Num finalSimilarity)), [])))))"

text \<open>\<open>calculateSimilarity\<close>: the \<open>try\<close> block under its \<open>catch\<close>. \<open>Inl\<close> would be
  a rejected promise.\<close>

definition calculateSimilarity ::
  "embedder \<Rightarrow> jsarg \<Rightarrow> jsarg \<Rightarrow> (js_error + SimilarityResult) \<times> string list list" where
  "calculateSimilarity embedService userInput expectedText =
     (case calculateSimilarityTry embedService userInput expectedText of
        (Inl err, requests) \<Rightarrow> (Inr errorResult, requests)
      | (Inr result, requests) \<Rightarrow> (Inr result, requests))"

section \<open>Practice sessions (practice-session-manager.ts)\<close>

text \<open>
  A Firestore timestamp is the number of milliseconds \<open>toMillis()\<close> reports,
  and the clock (\<open>Date.now()\<close>, \<open>Timestamp.now()\<close>) is read once per call: it is
  the parameter \<open>now\<close>. Counters and indices are natural numbers. Where two interfaces of the source
  share a field name, the later record carries a prefix: \<open>pp_\<close> in
  \<open>PracticeProgress\<close>, \<open>turn_\<close>, \<open>ctx_\<close>, \<open>init_\<close>, \<open>status_\<close> and \<open>result_\<close> in the
  responses.
\<close>

record PracticeProgress =
  pp_line_number :: nat
  expected_text :: string
  user_response :: string
  similarity_score :: jsnum
  is_correct :: bool
  pp_feedback :: feedback_msg
  attempt_number :: nat
  timestamp :: int

datatype session_status = active | completed | paused

record EnhancedPracticeSession =
  session_id :: string
  user_id :: string
  episode_id :: string
  character :: string
  scene_number :: "nat option"
  scene_id :: string
  current_line_index :: nat
  total_lines :: nat
  dialogue_lines :: "DialogueLine list"
  correct_answers :: nat
  total_attempts :: nat
  session_progress :: "PracticeProgress list"
  status :: session_status
  started_at :: int
  completed_at :: "int option"
  created_at :: int
  updated_at :: int

record SceneContext =
  ctx_location :: string
  ctx_characters :: "string list"
  ctx_description :: string

record UserTurn =
  expected :: string
  turn_speaker :: string
  turn_line_number :: nat

record PracticeSessionInitResponse =
  init_session_id :: string
  scene_context :: SceneContext
  init_total_lines :: nat
  first_context :: string
  user_turn :: UserTurn

record SessionStatus =
  current_line :: nat
  status_total_lines :: nat
  status_correct_answers :: nat
  status_accuracy :: real

record PracticeContinueResponse =
  evaluation :: SimilarityResult
  next_context :: "string option"
  next_user_turn :: "UserTurn option"
  session_status :: SessionStatus
  is_session_complete :: bool

record PracticeCompletionResult =
  result_session_id :: string
  final_score :: int
  accuracy :: real
  total_lines_practiced :: nat
  result_correct_answers :: nat
  session_duration_minutes :: real
  result_completed_at :: int

text \<open>A scene document as \<open>findPracticeScene\<close> returns it; every field but the
  identifier may be missing.\<close>

record SceneData =
  scene_doc_id :: string
  scene_text :: "string option"
  raw_text :: "string option"
  metadata_scene_number :: "nat option"
  doc_scene_number :: "nat option"
  location :: "string option"
  characters :: "string list option"
  scene_description :: "string option"

text \<open>The collection \<open>practice_sessions\<close>, the scene lookup and the injected
  similarity service. Reads and writes of the store succeed.\<close>

type_synonym session_store = "string \<rightharpoonup> EnhancedPracticeSession"
type_synonym scene_finder = "string \<Rightarrow> string \<Rightarrow> nat option \<Rightarrow> SceneData option"
type_synonym scorer = "string \<Rightarrow> string \<Rightarrow> js_error + SimilarityResult"

text \<open>\<open>a || b\<close> on strings and on numbers: the empty string and 0 are falsy.\<close>

definition orString :: "string option \<Rightarrow> string option \<Rightarrow> string option" where
  "orString a b = (case a of Some x \<Rightarrow> (if x \<noteq> [] then Some x else b) | None \<Rightarrow> b)"

definition orNumber :: "nat option \<Rightarrow> nat option \<Rightarrow> nat option" where
  "orNumber a b = (case a of Some x \<Rightarrow> (if x \<noteq> 0 then Some x else b) | None \<Rightarrow> b)"

definition orDefault :: "string option \<Rightarrow> string \<Rightarrow> string" where
  "orDefault a d = (case orString a None of Some x \<Rightarrow> x | None \<Rightarrow> d)"

text \<open>The decimal digits of a number, for the template of the session identifier.\<close>

fun showNat :: "nat \<Rightarrow> string" where
  "showNat n =
     (if n < 10 then [char_of (48 + n)]
      else showNat (n div 10) @ [char_of (48 + n mod 10)])"

declare showNat.simps [simp del]

definition startInteractiveSession ::
  "scene_finder \<Rightarrow> nat \<Rightarrow> session_store \<Rightarrow> string \<Rightarrow> string \<Rightarrow> string \<Rightarrow> nat option
     \<Rightarrow> js_error + session_store \<times> PracticeSessionInitResponse" where
  "startInteractiveSession findPracticeScene now db userId episodeId character0 sceneNumber =
     (case findPracticeScene episodeId character0 sceneNumber of
        None \<Rightarrow> Inl (Error (''No suitable scene found for '' @ character0 @ '' in '' @ episodeId))
      | Some sceneData \<Rightarrow>
     (case orString (scene_text sceneData) (raw_text sceneData) of
        None \<Rightarrow> Inl TypeError
      | Some sceneText \<Rightarrow>
     (let dialogueLines = parseSceneDialogue sceneText;
          userLines = filterUserLines dialogueLines character0
      in if length userLines = 0
         then Inl (Error (''No dialogue lines found for '' @ character0 @ '' in this scene''))
         else
     (let sessionId = ''session_'' @ showNat now @ ''_'' @ userId;
          session =
            \<lparr>session_id = sessionId, user_id = userId, episode_id = episodeId,
             character = character0,
             scene_number = orNumber (metadata_scene_number sceneData)
                              (doc_scene_number sceneData),
             scene_id = scene_doc_id sceneData,
             current_line_index = 0, total_lines = length userLines,
             dialogue_lines = dialogueLines,
             correct_answers = 0, total_attempts = 0, session_progress = [],
             status = active, started_at = int now, completed_at = None,
             created_at = int now, updated_at = int now\<rparr>;
          firstUserLine = userLines ! 0;
          contextLines = getContextBefore dialogueLines (line_number firstUserLine) 2
      in Inr (db(sessionId \<mapsto> session),
              \<lparr>init_session_id = sessionId,
               scene_context =
                 \<lparr>ctx_location = orDefault (location sceneData) ''Unknown location'',
                  ctx_characters = (case characters sceneData of Some cs \<Rightarrow> cs
                                    | None \<Rightarrow> [character0]),
                  ctx_description = orDefault (scene_description sceneData) ''Practice scene''\<rparr>,
               init_total_lines = length userLines,
               first_context = contextLines,
               user_turn = \<lparr>expected = line_text firstUserLine, turn_speaker = character0,
                            turn_line_number = line_number firstUserLine\<rparr>\<rparr>)))))"

definition sessionAccuracy :: "EnhancedPracticeSession \<Rightarrow> real" where
  "sessionAccuracy session =
     (if total_attempts session > 0
      then real (correct_answers session) / real (total_attempts session) * 100 else 0)"

definition continuePractice ::
  "scorer \<Rightarrow> nat \<Rightarrow> session_store \<Rightarrow> string \<Rightarrow> string
     \<Rightarrow> js_error + session_store \<times> PracticeContinueResponse" where
  "continuePractice score now db sessionId userResponse =
     (case db sessionId of
        None \<Rightarrow> Inl (Error ''Practice session not found'')
      | Some session \<Rightarrow>
     (if status session \<noteq> active then Inl (Error ''Practice session is not active'')
      else
     (let userLines = filterUserLines (dialogue_lines session) (character session)
      in if \<not> current_line_index session < length userLines
         then Inl (Error ''No more lines to practice'')
         else
     (let currentUserLine = userLines ! current_line_index session
      in case score userResponse (line_text currentUserLine) of
        Inl err \<Rightarrow> Inl err
      | Inr evaluation0 \<Rightarrow>
     (let progress =
            \<lparr>pp_line_number = line_number currentUserLine,
             expected_text = line_text currentUserLine,
             user_response = userResponse,
             similarity_score = similarity evaluation0,
             is_correct = isCorrect evaluation0,
             pp_feedback = feedback evaluation0,
             attempt_number = total_attempts session + 1,
             timestamp = int now\<rparr>;
          session = session\<lparr>session_progress := session_progress session @ [progress]\<rparr>;
          session = session\<lparr>total_attempts := total_attempts session + 1\<rparr>;
          session = (if isCorrect evaluation0
                     then session\<lparr>correct_answers := correct_answers session + 1\<rparr>
                     else session);
          session = session\<lparr>current_line_index := current_line_index session + 1\<rparr>;
          session = session\<lparr>updated_at := int now\<rparr>;
          isComplete = (current_line_index session \<ge> length userLines);
          session = (if isComplete
                     then session\<lparr>status := completed, completed_at := Some (int now)\<rparr>
                     else session);
          nextUserLine = (if \<not> isComplete \<and> current_line_index session < length userLines
                          then Some (userLines ! current_line_index session) else None);
          nextContext = map_option
                          (\<lambda>l. getContextBefore (dialogue_lines session) (line_number l) 2)
                          nextUserLine;
          nextUserTurn = map_option
                           (\<lambda>l. \<lparr>expected = line_text l, turn_speaker = character session,
                                 turn_line_number = line_number l\<rparr>)
                           nextUserLine;
          accuracy0 = sessionAccuracy session
      in Inr (db(sessionId \<mapsto> session\<lparr>updated_at := int now\<rparr>),
              \<lparr>evaluation = evaluation0,
               next_context = nextContext,
               next_user_turn = nextUserTurn,
               session_status =
                 \<lparr>current_line = current_line_index session + 1,
                  status_total_lines = length userLines,
                  status_correct_answers = correct_answers session,
                  status_accuracy = real_of_int (js_round (accuracy0 * 10)) / 10\<rparr>,
               is_session_complete = isComplete\<rparr>))))))"

definition getSessionStatus :: "session_store \<Rightarrow> string \<Rightarrow> js_error + EnhancedPracticeSession" where
  "getSessionStatus db sessionId =
     (case db sessionId of
        None \<Rightarrow> Inl (Error ''Practice session not found'')
      | Some session \<Rightarrow> Inr session)"

text \<open>\<open>completeSession\<close> reads the store and writes nothing. \<open>completed_at!\<close> on a
  session without completion time raises a \<open>TypeError\<close>.\<close>

definition completeSession :: "session_store \<Rightarrow> string \<Rightarrow> js_error + PracticeCompletionResult" where
  "completeSession db sessionId =
     (case getSessionStatus db sessionId of
        Inl err \<Rightarrow> Inl err
      | Inr session \<Rightarrow>
     (if status session = completed
      then (case completed_at session of
              None \<Rightarrow> Inl TypeError
            | Some completedAt \<Rightarrow>
          (let durationMs = completedAt - started_at session;
               durationMinutes =
                 real_of_int (js_round (real_of_int durationMs / (1000 * 60) * 10)) / 10;
               accuracy0 = sessionAccuracy session
           in Inr \<lparr>result_session_id = sessionId,
                   final_score = js_round accuracy0,
                   accuracy = real_of_int (js_round (accuracy0 * 10)) / 10,
                   total_lines_practiced = total_attempts session,
                   result_correct_answers = correct_answers session,
                   session_duration_minutes = durationMinutes,
                   result_completed_at = completedAt\<rparr>))
      else Inl (Error ''Session is not yet completed'')))"

text \<open>The stores this core can produce: from the empty collection, by
  successful calls of \<open>startInteractiveSession\<close> and \<open>continuePractice\<close>, one
  call at a time.\<close>

inductive reachable :: "session_store \<Rightarrow> bool" where
  reachable_empty: "reachable Map.empty"
| reachable_start:
    "reachable db \<Longrightarrow>
     startInteractiveSession findPracticeScene now db userId episodeId character0 sceneNumber
       = Inr (db', response) \<Longrightarrow> reachable db'"
| reachable_continue:
    "reachable db \<Longrightarrow>
     continuePractice score now db sessionId userResponse = Inr (db', response) \<Longrightarrow>
     reachable db'"

section \<open>Vocabulary of the properties\<close>

text \<open>The definitions of this section are not code of the repository: they
  say in list terms what the properties below speak about.\<close>

text \<open>The input lines that survive the parser's filter, trimmed.\<close>

definition nonEmptyLines :: "string \<Rightarrow> string list" where
  "nonEmptyLines sceneText =
     filter (\<lambda>t. t \<noteq> []) (map trim (split_on (CHR 0x0A) sceneText))"

definition wrappedInBrackets :: "string \<Rightarrow> bool" where
  "wrappedInBrackets t = (t \<noteq> [] \<and> hd t = CHR ''['' \<and> last t = CHR '']'')"

definition beforeFirstColon :: "string \<Rightarrow> string" where
  "beforeFirstColon t = takeWhile (\<lambda>c. c \<noteq> CHR '':'') t"

definition afterFirstColon :: "string \<Rightarrow> string" where
  "afterFirstColon t = drop 1 (dropWhile (\<lambda>c. c \<noteq> CHR '':'') t)"

text \<open>Context lines: the kinds shown, the last \<open>n\<close> elements of a list, and the
  lines in front of the first line that carries the target ordinal.\<close>

definition isContextKind :: "DialogueLine \<Rightarrow> bool" where
  "isContextKind line = (type line = dialogue \<or> type line = action)"

definition lastN :: "nat \<Rightarrow> 'a list \<Rightarrow> 'a list" where
  "lastN n xs = drop (length xs - n) xs"

definition precedingLines :: "DialogueLine list \<Rightarrow> nat \<Rightarrow> DialogueLine list" where
  "precedingLines lines target = takeWhile (\<lambda>line. line_number line \<noteq> target) lines"

text \<open>The context as the specification words it: the \<open>windowSize\<close> most recent
  lines of kind dialogue or action before the target ordinal, a dialogue line
  shown as speaker, colon, text.\<close>

definition formatClaimed :: "DialogueLine \<Rightarrow> string" where
  "formatClaimed line =
     (if type line = dialogue
      then (case speaker line of Some sp \<Rightarrow> sp | None \<Rightarrow> []) @ '': '' @ line_text line
      else line_text line)"

definition contextBeforeClaimed :: "DialogueLine list \<Rightarrow> nat \<Rightarrow> nat \<Rightarrow> string" where
  "contextBeforeClaimed lines target windowSize =
     join [CHR 0x0A]
       (map formatClaimed
          (lastN windowSize
             (filter (\<lambda>line. isContextKind line \<and> line_number line < target) lines)))"

text \<open>A scene whose third line is narration.\<close>

definition sceneWithNarration :: string where
  "sceneWithNarration =
     ''A: hi'' @ [CHR 0x0A] @ ''B: yo'' @ [CHR 0x0A] @ ''x'' @ [CHR 0x0A] @ ''C: t''"

text \<open>A scene with a stage direction, two speakers, an empty line and a line of
  narration; and a stage direction that contains a colon.\<close>

definition exampleScene :: string where
  "exampleScene =
     ''[Scene: The playground]'' @ [CHR 0x0A] @ ''Rachel: Ok... I got a spider.'' @ [CHR 0x0A]
       @ ''   '' @ [CHR 0x0A] @ ''  a spider sits there '' @ [CHR 0x0A]
       @ ''Ross: (nervously) Ok...''"




text \<open>Near-exact match as the specification words it: the same length with at
  most one differing position, or one string is the other with one character
  inserted.\<close>

definition differInAtMostOnePosition :: "string \<Rightarrow> string \<Rightarrow> bool" where
  "differInAtMostOnePosition a b =
     (length a = length b \<and> card {i. i < length a \<and> a ! i \<noteq> b ! i} \<le> 1)"

definition oneCharacterInserted :: "string \<Rightarrow> string \<Rightarrow> bool" where
  "oneCharacterInserted longer shorter =
     (\<exists>xs c ys. longer = xs @ c # ys \<and> shorter = xs @ ys)"

definition nearExactMatch :: "string \<Rightarrow> string \<Rightarrow> bool" where
  "nearExactMatch a b =
     (differInAtMostOnePosition a b \<or> oneCharacterInserted a b \<or> oneCharacterInserted b a)"


text \<open>The two operands of the comparison: the normalised user input, and the
  normalised dialogue extracted from the expected line.\<close>

definition userClean :: "string \<Rightarrow> string" where
  "userClean user = cleanTextForComparison user"

definition expectedClean :: "string \<Rightarrow> string" where
  "expectedClean expected0 = cleanTextForComparison (extractDialogueOnly expected0)"

text \<open>An embedding service that is down, and one whose answer to every
  request is the same unit vector twice.\<close>

definition failingService :: embedder where
  "failingService request = Inl ServiceFailure"


text \<open>The turns of a session, and the facts that hold of every session this
  core produces.\<close>

definition userLinesOf :: "EnhancedPracticeSession \<Rightarrow> DialogueLine list" where
  "userLinesOf s = filterUserLines (dialogue_lines s) (character s)"

definition sessionInvariant :: "EnhancedPracticeSession \<Rightarrow> bool" where
  "sessionInvariant s =
     (total_attempts s = current_line_index s \<and>
      length (session_progress s) = total_attempts s \<and>
      total_lines s = length (userLinesOf s) \<and>
      1 \<le> total_lines s \<and>
      (status s = active \<longrightarrow> current_line_index s < total_lines s) \<and>
      (status s = completed \<longrightarrow> current_line_index s = total_lines s) \<and>
      (status s = completed \<longrightarrow> completed_at s \<noteq> None) \<and>
      (\<forall>i < length (session_progress s).
         attempt_number (session_progress s ! i) = Suc i \<and>
         pp_line_number (session_progress s ! i) = line_number (userLinesOf s ! i) \<and>
         expected_text (session_progress s ! i) = line_text (userLinesOf s ! i)))"

text \<open>A scene with one turn for Ross, a lookup that finds it, a scorer that
  accepts the expected text only, and a run: the start, then the right answer.\<close>

definition soloScene :: SceneData where
  "soloScene =
     \<lparr>scene_doc_id = ''S01E01_001'', scene_text = Some ''Ross: Hi'',
      raw_text = None, metadata_scene_number = Some 1, doc_scene_number = None,
      location = Some ''Central Perk'', characters = Some [''Ross'', ''Rachel''],
      scene_description = None\<rparr>"

definition soloFinder :: scene_finder where
  "soloFinder episodeId character0 sceneNumber = Some soloScene"

definition literalScorer :: scorer where
  "literalScorer userResponse expectedText =
     (if userResponse = expectedText then Inr exactResult
      else Inr (scoredResult expectedText 0 0 None (Num 0)))"

definition soloStart :: "js_error + session_store \<times> PracticeSessionInitResponse" where
  "soloStart =
     startInteractiveSession soloFinder 1000 Map.empty ''u2'' ''S01E01'' ''Ross'' None"

definition soloTurn1 :: "js_error + session_store \<times> PracticeContinueResponse" where
  "soloTurn1 = continuePractice literalScorer 2000 (fst (projr soloStart)) ''session_1000_u2'' ''Hi''"

text \<open>A scene with two turns for Ross, and a lookup that finds it.\<close>

definition duoText :: string where
  "duoText = ''Ross: Hi'' @ [CHR 0x0A] @ ''Rachel: Hey'' @ [CHR 0x0A] @ ''Ross: Bye''"

definition duoScene :: SceneData where
  "duoScene =
     \<lparr>scene_doc_id = ''S01E01_002'', scene_text = Some duoText,
      raw_text = None, metadata_scene_number = Some 2, doc_scene_number = None,
      location = Some ''Central Perk'', characters = Some [''Ross'', ''Rachel''],
      scene_description = None\<rparr>"

definition duoFinder :: scene_finder where
  "duoFinder episodeId character0 sceneNumber = Some duoScene"

text \<open>A span that dialogue extraction removes: an opening character with a
  closing character somewhere after it.\<close>

definition hasSpan :: "char \<Rightarrow> char \<Rightarrow> string \<Rightarrow> bool" where
  "hasSpan opn cls s = (\<exists>xs ys zs. s = xs @ opn # ys @ cls # zs)"

text \<open>Collapsing white space, read as an automaton whose state says whether the
  last character seen was white space; the proofs about normalisation use it.\<close>

fun squeeze :: "bool \<Rightarrow> string \<Rightarrow> string" where
  "squeeze b [] = []"
| "squeeze b (c # cs) =
     (if isWhiteSpace c then (if b then squeeze True cs else CHR '' '' # squeeze True cs)
      else c # squeeze False cs)"

section \<open>The parser: ordinals and kinds\<close>

lemma parseLoop_length:
  "length (parseLoop ls n) = length (filter (\<lambda>t. t \<noteq> []) (map trim ls))"
  by (induction ls arbitrary: n) (simp_all add: Let_def)

lemma parseLoop_nth:
  "i < length (filter (\<lambda>t. t \<noteq> []) (map trim ls)) \<Longrightarrow>
   parseLoop ls n ! i = parseLine (n + i) (filter (\<lambda>t. t \<noteq> []) (map trim ls) ! i)"
proof (induction ls arbitrary: n i)
  case Nil
  then show ?case by simp
next
  case (Cons l ls)
  show ?case
  proof (cases "trim l = []")
    case True
    with Cons show ?thesis by simp
  next
    case False
    with Cons show ?thesis by (cases i) (simp_all add: Let_def)
  qed
qed

lemma parse_length: "length (parseSceneDialogue s) = length (nonEmptyLines s)"
  by (simp add: parseSceneDialogue_def nonEmptyLines_def parseLoop_length)

lemma parse_nth:
  "i < length (nonEmptyLines s) \<Longrightarrow>
   parseSceneDialogue s ! i = parseLine (Suc i) (nonEmptyLines s ! i)"
  by (simp add: parseSceneDialogue_def nonEmptyLines_def parseLoop_nth)

lemma startsWith_hd: "startsWith t c = (t \<noteq> [] \<and> hd t = c)"
  by (cases t) (simp_all add: startsWith_def)

lemma endsWith_last: "endsWith t c = (t \<noteq> [] \<and> last t = c)"
  by (cases t rule: rev_cases) (simp_all add: endsWith_def)

lemma startsWith_endsWith_wrapped:
  "(startsWith t (CHR ''['') \<and> endsWith t (CHR '']'')) = wrappedInBrackets t"
  by (auto simp: startsWith_hd endsWith_last wrappedInBrackets_def)

lemma substring_before_first:
  assumes "c \<in> set t"
  shows "substring t 0 (indexOf t c) = takeWhile (\<lambda>d. d \<noteq> c) t"
proof -
  have "length (takeWhile (\<lambda>d. d \<noteq> c) t) \<le> length t"
    by (rule length_takeWhile_le)
  with assms show ?thesis
    by (simp add: substring_def indexOf_def clampIndex_def Let_def min_def max_def
        takeWhile_eq_take[symmetric])
qed

lemma substringFrom_after_first:
  assumes "c \<in> set t"
  shows "substringFrom t (indexOf t c + 1) = drop 1 (dropWhile (\<lambda>d. d \<noteq> c) t)"
proof -
  have n: "nat (int (length (takeWhile (\<lambda>d. d \<noteq> c) t)) + 1)
             = Suc (length (takeWhile (\<lambda>d. d \<noteq> c) t))"
    by simp
  from assms show ?thesis
    by (simp only: substringFrom_def indexOf_def clampIndex_def n if_True)
       (simp add: dropWhile_eq_drop min_def)
qed

lemma parseLine_line_number: "line_number (parseLine n t) = n"
  by (simp add: parseLine_def Let_def)

lemma parse_line_numbers:
  "map line_number (parseSceneDialogue s) = [1..<Suc (length (nonEmptyLines s))]"
  by (rule nth_equalityI)
     (simp_all add: parse_length parse_nth parseLine_line_number del: upt_Suc)

lemma parseLine_kinds:
  "line_number (parseLine n t) = n \<and> \<not> is_user_line (parseLine n t) \<and>
   (wrappedInBrackets t \<longrightarrow>
      type (parseLine n t) = action \<and> speaker (parseLine n t) = None \<and>
      line_text (parseLine n t) = t) \<and>
   (\<not> wrappedInBrackets t \<and> CHR '':'' \<in> set t \<longrightarrow>
      type (parseLine n t) = dialogue \<and>
      speaker (parseLine n t) = Some (trim (beforeFirstColon t)) \<and>
      line_text (parseLine n t) = trim (afterFirstColon t)) \<and>
   (\<not> wrappedInBrackets t \<and> CHR '':'' \<notin> set t \<longrightarrow>
      type (parseLine n t) = narration \<and> speaker (parseLine n t) = None \<and>
      line_text (parseLine n t) = t)"
  by (simp add: parseLine_def startsWith_endsWith_wrapped includesChar_def Let_def
      substring_before_first substringFrom_after_first beforeFirstColon_def
      afterFirstColon_def)

text \<open>
  C7, as the code has it. Empty (white-space only) lines are dropped; the
  output has one line for each of the remaining input lines, numbered 1, 2, ...
  in order; and each is classified by itself: a line wrapped in square brackets
  is an action, without speaker, its text the trimmed line; otherwise a
  line with a colon is dialogue, its speaker the trimmed text before the first
  colon and its text the TRIMMED text after that colon; any other line is
  narration.
\<close>

theorem parseSceneDialogue_ordinals_and_kinds:
  "length (parseSceneDialogue s) = length (nonEmptyLines s) \<and>
   map line_number (parseSceneDialogue s) = [1..<Suc (length (nonEmptyLines s))] \<and>
   (\<forall>i < length (nonEmptyLines s).
      line_number (parseSceneDialogue s ! i) = Suc i \<and>
      \<not> is_user_line (parseSceneDialogue s ! i) \<and>
      (wrappedInBrackets (nonEmptyLines s ! i) \<longrightarrow>
         type (parseSceneDialogue s ! i) = action \<and>
         speaker (parseSceneDialogue s ! i) = None \<and>
         line_text (parseSceneDialogue s ! i) = nonEmptyLines s ! i) \<and>
      (\<not> wrappedInBrackets (nonEmptyLines s ! i) \<and> CHR '':'' \<in> set (nonEmptyLines s ! i) \<longrightarrow>
         type (parseSceneDialogue s ! i) = dialogue \<and>
         speaker (parseSceneDialogue s ! i) = Some (trim (beforeFirstColon (nonEmptyLines s ! i))) \<and>
         line_text (parseSceneDialogue s ! i) = trim (afterFirstColon (nonEmptyLines s ! i))) \<and>
      (\<not> wrappedInBrackets (nonEmptyLines s ! i) \<and> CHR '':'' \<notin> set (nonEmptyLines s ! i) \<longrightarrow>
         type (parseSceneDialogue s ! i) = narration \<and>
         speaker (parseSceneDialogue s ! i) = None \<and>
         line_text (parseSceneDialogue s ! i) = nonEmptyLines s ! i))"
proof (intro conjI allI impI)
  show "length (parseSceneDialogue s) = length (nonEmptyLines s)"
    by (rule parse_length)
  show "map line_number (parseSceneDialogue s) = [1..<Suc (length (nonEmptyLines s))]"
    by (rule parse_line_numbers)
qed (use parseLine_kinds in \<open>simp_all add: parse_nth\<close>)

text \<open>The theorem at a scene with all three kinds of line and an empty line.\<close>

theorem parseSceneDialogue_ordinals_and_kinds_witness:
  "(0 < length (nonEmptyLines exampleScene) \<and> wrappedInBrackets (nonEmptyLines exampleScene ! 0) \<and>
    type (parseSceneDialogue exampleScene ! 0) = action) \<and>
   (1 < length (nonEmptyLines exampleScene) \<and> \<not> wrappedInBrackets (nonEmptyLines exampleScene ! 1) \<and>
    CHR '':'' \<in> set (nonEmptyLines exampleScene ! 1) \<and>
    speaker (parseSceneDialogue exampleScene ! 1) = Some ''Rachel'' \<and>
    line_text (parseSceneDialogue exampleScene ! 1) = ''Ok... I got a spider.'') \<and>
   (2 < length (nonEmptyLines exampleScene) \<and> \<not> wrappedInBrackets (nonEmptyLines exampleScene ! 2) \<and>
    CHR '':'' \<notin> set (nonEmptyLines exampleScene ! 2) \<and>
    type (parseSceneDialogue exampleScene ! 2) = narration) \<and>
   map line_number (parseSceneDialogue exampleScene) = [1, 2, 3, 4]"
proof -
  have n: "nonEmptyLines exampleScene =
    [''[Scene: The playground]'', ''Rachel: Ok... I got a spider.'', ''a spider sits there'',
     ''Ross: (nervously) Ok...'']"
    by code_simp
  have w: "wrappedInBrackets ''[Scene: The playground]''"
      "\<not> wrappedInBrackets ''Rachel: Ok... I got a spider.''"
      "\<not> wrappedInBrackets ''a spider sits there''"
    by code_simp+
  have t: "trim (beforeFirstColon ''Rachel: Ok... I got a spider.'') = ''Rachel''"
      "trim (afterFirstColon ''Rachel: Ok... I got a spider.'') = ''Ok... I got a spider.''"
    by code_simp+
  have u: "[1..<5] = [1, 2, 3, 4::nat]" by code_simp
  show ?thesis
    using parseSceneDialogue_ordinals_and_kinds [of exampleScene]
    by (simp add: n w t u)
qed

text \<open>C7 as worded takes the text of a dialogue line to be the remainder after the
  first colon. For the line \<open>A: hi\<close> the remainder begins with a space and the
  parsed text does not.\<close>

theorem parseSceneDialogue_text_counterexample:
  "CHR '':'' \<in> set ''A: hi'' \<and> \<not> wrappedInBrackets ''A: hi'' \<and>
   nonEmptyLines ''A: hi'' = [''A: hi''] \<and>
   line_text (parseSceneDialogue ''A: hi'' ! 0) = ''hi'' \<and>
   afterFirstColon ''A: hi'' = '' hi'' \<and>
   line_text (parseSceneDialogue ''A: hi'' ! 0) \<noteq> afterFirstColon ''A: hi''"
  by code_simp

text \<open>
  C10. The bracket rule is tried before the colon rule: a non-empty input line
  whose trimmed form starts with an opening and ends with a closing square
  bracket and contains a colon is parsed as an action without speaker, with the
  whole trimmed line as its text, and not as dialogue.
\<close>

theorem brackets_before_colon:
  "i < length (nonEmptyLines s) \<Longrightarrow> wrappedInBrackets (nonEmptyLines s ! i) \<Longrightarrow>
   CHR '':'' \<in> set (nonEmptyLines s ! i) \<Longrightarrow>
   type (parseSceneDialogue s ! i) = action \<and> speaker (parseSceneDialogue s ! i) = None \<and>
   type (parseSceneDialogue s ! i) \<noteq> dialogue \<and>
   line_text (parseSceneDialogue s ! i) = nonEmptyLines s ! i"
  using parseLine_kinds [of "Suc i" "nonEmptyLines s ! i"] by (simp add: parse_nth)

text \<open>The stage direction of the example scene contains a colon.\<close>

theorem brackets_before_colon_witness:
  "0 < length (nonEmptyLines exampleScene) \<and> wrappedInBrackets (nonEmptyLines exampleScene ! 0) \<and>
   CHR '':'' \<in> set (nonEmptyLines exampleScene ! 0) \<and>
   type (parseSceneDialogue exampleScene ! 0) = action \<and>
   speaker (parseSceneDialogue exampleScene ! 0) = None"
proof -
  have h: "0 < length (nonEmptyLines exampleScene)"
    "wrappedInBrackets (nonEmptyLines exampleScene ! 0)"
    "CHR '':'' \<in> set (nonEmptyLines exampleScene ! 0)"
    by code_simp+
  from brackets_before_colon [OF h] h show ?thesis by simp
qed


section \<open>Context before a turn\<close>

lemma findIndex_present:
  assumes "list_ex p xs"
  shows "findIndex p xs = int (length (takeWhile (\<lambda>x. \<not> p x) xs))"
    and "length (takeWhile (\<lambda>x. \<not> p x) xs) < length xs"
proof -
  show "findIndex p xs = int (length (takeWhile (\<lambda>x. \<not> p x) xs))"
    using assms by (simp add: findIndex_def)
  from assms show "length (takeWhile (\<lambda>x. \<not> p x) xs) < length xs"
    by (induction xs) auto
qed

lemma slice_window:
  assumes "k \<le> length xs"
  shows "slice xs (max 0 (int k - int w)) (int k) = lastN w (take k xs)"
proof -
  have lo: "sliceIndex (length xs) (max 0 (int k - int w)) = k - w"
    using assms by (auto simp: sliceIndex_def max_def min_def)
  have hi: "sliceIndex (length xs) (int k) = k"
    using assms by (simp add: sliceIndex_def)
  show ?thesis
    using assms by (simp add: slice_def lo hi lastN_def Let_def drop_take min_def)
qed

lemma getContextBefore_window:
  assumes "list_ex (\<lambda>line. line_number line = target) lines"
  shows "getContextBefore lines target w =
           join [CHR 0x0A]
             (map contextLine (filter isContextKind (lastN w (precedingLines lines target))))"
proof -
  let ?p = "\<lambda>line. line_number line = target"
  let ?k = "length (takeWhile (\<lambda>x. \<not> ?p x) lines)"
  have k: "findIndex ?p lines = int ?k" and lt: "?k < length lines"
    using findIndex_present [OF assms] by simp_all
  have pre: "take ?k lines = precedingLines lines target"
    by (simp add: precedingLines_def takeWhile_eq_take[symmetric])
  have sl: "slice lines (max 0 (int ?k - int w)) (int ?k) = lastN w (precedingLines lines target)"
    using lt slice_window [of ?k lines w] by (simp only: pre)
  have "getContextBefore lines target w =
          join [CHR 0x0A]
            (map contextLine
               (filter (\<lambda>line. type line = dialogue \<or> type line = action)
                  (slice lines (max 0 (int ?k - int w)) (int ?k))))"
    by (simp only: getContextBefore_def k Let_def)
  also have "(\<lambda>line. type line = dialogue \<or> type line = action) = isContextKind"
    by (simp add: isContextKind_def fun_eq_iff)
  finally show ?thesis by (simp only: sl)
qed

lemma contextLine_format:
  "contextLine line =
     (if type line = dialogue \<and> speaker line \<noteq> None \<and> speaker line \<noteq> Some []
      then the (speaker line) @ '': '' @ line_text line else line_text line)"
  by (cases "speaker line") (simp_all add: contextLine_def)

text \<open>
  C3, as the code has it. For a list of lines and a target ordinal carried by
  one of them, \<open>getContextBefore\<close> with window 2 looks at the (up to) two lines
  immediately in front of the first line with that ordinal, keeps those of kind
  dialogue or action, shows a dialogue line with a non-empty speaker as speaker,
  colon, space, text and any other line as its bare text, and joins them with
  newlines. At most two lines are shown; a narration line inside the window is
  dropped and not replaced by an earlier line.
\<close>

theorem getContextBefore_two_preceding:
  "list_ex (\<lambda>line. line_number line = target) lines \<Longrightarrow>
   getContextBefore lines target 2 =
     join [CHR 0x0A]
       (map (\<lambda>line. if type line = dialogue \<and> speaker line \<noteq> None \<and> speaker line \<noteq> Some []
                     then the (speaker line) @ '': '' @ line_text line else line_text line)
          (filter isContextKind (lastN 2 (precedingLines lines target)))) \<and>
   length (filter isContextKind (lastN 2 (precedingLines lines target))) \<le> 2"
proof -
  assume a: "list_ex (\<lambda>line. line_number line = target) lines"
  have "length (filter isContextKind (lastN 2 (precedingLines lines target)))
          \<le> length (lastN 2 (precedingLines lines target))"
    by (rule length_filter_le)
  also have "\<dots> \<le> 2" by (simp add: lastN_def)
  finally show ?thesis
    using getContextBefore_window [OF a, of 2] contextLine_format
    by (simp cong: map_cong)
qed


text \<open>C3 as worded asks for the two most recent dialogue or action lines before
  the target. In a scene whose third line is narration, the context of line 4
  is the second line alone, not the first and the second.\<close>

theorem getContextBefore_counterexample:
  "getContextBefore (parseSceneDialogue sceneWithNarration) 4 2 = ''B: yo'' \<and>
   contextBeforeClaimed (parseSceneDialogue sceneWithNarration) 4 2
     = ''A: hi'' @ [CHR 0x0A] @ ''B: yo'' \<and>
   getContextBefore (parseSceneDialogue sceneWithNarration) 4 2
     \<noteq> contextBeforeClaimed (parseSceneDialogue sceneWithNarration) 4 2"
  by code_simp

text \<open>The theorem at that scene and target.\<close>

theorem getContextBefore_two_preceding_witness:
  "list_ex (\<lambda>line. line_number line = 4) (parseSceneDialogue sceneWithNarration) \<and>
   filter isContextKind (lastN 2 (precedingLines (parseSceneDialogue sceneWithNarration) 4))
     = [\<lparr>line_number = 2, type = dialogue, speaker = Some ''B'', line_text = ''yo'',
          is_user_line = False\<rparr>] \<and>
   getContextBefore (parseSceneDialogue sceneWithNarration) 4 2 = ''B: yo''"
proof -
  have h: "list_ex (\<lambda>line. line_number line = 4) (parseSceneDialogue sceneWithNarration)"
    by code_simp
  have f: "filter isContextKind (lastN 2 (precedingLines (parseSceneDialogue sceneWithNarration) 4))
     = [\<lparr>line_number = 2, type = dialogue, speaker = Some ''B'', line_text = ''yo'',
          is_user_line = False\<rparr>]"
    by code_simp
  from getContextBefore_two_preceding [OF h] h f show ?thesis by simp
qed


section \<open>Completion metrics\<close>










section \<open>The similarity cascade\<close>



lemma calculateSimilarity_exact:
  "userClean user = expectedClean expected0 \<Longrightarrow>
   calculateSimilarity emb (Str user) (Str expected0) = (Inr exactResult, [])"
  by (simp add: calculateSimilarity_def calculateSimilarityTry_def userClean_def
      expectedClean_def Let_def)

lemma calculateSimilarity_veryClose:
  "userClean user \<noteq> expectedClean expected0 \<Longrightarrow>
   isVeryCloseMatch (userClean user) (expectedClean expected0) \<Longrightarrow>
   calculateSimilarity emb (Str user) (Str expected0) = (Inr veryCloseResult, [])"
  by (simp add: calculateSimilarity_def calculateSimilarityTry_def userClean_def
      expectedClean_def Let_def)



lemma calculateSimilarityTry_strings:
  "\<exists>r. fst (calculateSimilarityTry emb (Str user) (Str expected0)) = Inr r"
  by (simp add: calculateSimilarityTry_def Let_def split: sum.split)

text \<open>
  C4. \<open>calculateSimilarity\<close> returns a result for every pair of arguments and
  every behaviour of the embedding service, and never an error. Whenever its
  \<open>try\<close> block raises (as it does on an argument that is not a string), the
  result is the error result: similarity 0, not correct, the error feedback.
  On two strings the \<open>try\<close> block does not raise at all: a failure of the
  embedding service is absorbed further inside.
\<close>

theorem calculateSimilarity_never_throws:
  "(\<exists>r. fst (calculateSimilarity emb userInput expectedText) = Inr r) \<and>
   (\<forall>err. fst (calculateSimilarityTry emb userInput expectedText) = Inl err \<longrightarrow>
      fst (calculateSimilarity emb userInput expectedText) = Inr errorResult) \<and>
   similarity errorResult = Num 0 \<and> \<not> isCorrect errorResult \<and>
   feedback errorResult = ErrorEvaluating \<and>
   (\<forall>user expected0. userInput = Str user \<and> expectedText = Str expected0 \<longrightarrow>
      (\<exists>r. fst (calculateSimilarityTry emb userInput expectedText) = Inr r))"
proof (intro conjI allI impI)
  show "\<exists>r. fst (calculateSimilarity emb userInput expectedText) = Inr r"
    by (cases "calculateSimilarityTry emb userInput expectedText")
       (auto simp: calculateSimilarity_def split: sum.split)
next
  fix err
  assume "fst (calculateSimilarityTry emb userInput expectedText) = Inl err"
  then show "fst (calculateSimilarity emb userInput expectedText) = Inr errorResult"
    by (cases "calculateSimilarityTry emb userInput expectedText")
       (auto simp: calculateSimilarity_def)
next
  fix user expected0
  assume "userInput = Str user \<and> expectedText = Str expected0"
  then show "\<exists>r. fst (calculateSimilarityTry emb userInput expectedText) = Inr r"
    using calculateSimilarityTry_strings [of emb user expected0] by simp
qed (simp_all add: errorResult_def)

text \<open>A user input that is not a string makes the \<open>try\<close> block raise; two strings
  do not.\<close>

theorem calculateSimilarity_never_throws_witness:
  "fst (calculateSimilarityTry failingService NotString (Str ''Ok'')) = Inl TypeError \<and>
   fst (calculateSimilarity failingService NotString (Str ''Ok'')) = Inr errorResult \<and>
   (\<exists>r. fst (calculateSimilarityTry failingService (Str ''Ok'') (Str ''Ok'')) = Inr r)"
proof -
  have h: "fst (calculateSimilarityTry failingService NotString (Str ''Ok'')) = Inl TypeError"
    by (simp add: calculateSimilarityTry_def Let_def)
  from calculateSimilarity_never_throws [of failingService NotString "Str ''Ok''"] h
  have "fst (calculateSimilarity failingService NotString (Str ''Ok'')) = Inr errorResult"
    by blast
  moreover from calculateSimilarity_never_throws [of failingService "Str ''Ok''" "Str ''Ok''"]
  have "\<exists>r. fst (calculateSimilarityTry failingService (Str ''Ok'') (Str ''Ok'')) = Inr r"
    by blast
  ultimately show ?thesis using h by simp
qed

subsection \<open>Near-exact match\<close>

lemma countDifferences_card:
  "countDifferences a b = card {i. i < length a \<and> a ! i \<noteq> b ! i}"
proof -
  have "set (filter (\<lambda>i. a ! i \<noteq> b ! i) [0..<length a]) = {i. i < length a \<and> a ! i \<noteq> b ! i}"
    by auto
  moreover have "distinct (filter (\<lambda>i. a ! i \<noteq> b ! i) [0..<length a])"
    by simp
  ultimately show ?thesis
    unfolding countDifferences_def by (metis distinct_card)
qed

lemma oneCharacterInserted_length:
  "oneCharacterInserted l s \<Longrightarrow> length l = Suc (length s)"
  by (auto simp: oneCharacterInserted_def)

lemma removal_iff_inserted:
  "list_ex (\<lambda>i. take i l @ drop (Suc i) l = s) [0..<length l] = oneCharacterInserted l s"
proof
  assume "list_ex (\<lambda>i. take i l @ drop (Suc i) l = s) [0..<length l]"
  then obtain i where i: "i < length l" "take i l @ drop (Suc i) l = s"
    by (auto simp: list_ex_iff)
  from i(1) have "l = take i l @ l ! i # drop (Suc i) l"
    by (rule id_take_nth_drop)
  with i(2) show "oneCharacterInserted l s"
    unfolding oneCharacterInserted_def by metis
next
  assume "oneCharacterInserted l s"
  then obtain xs c ys where l: "l = xs @ c # ys" and s: "s = xs @ ys"
    by (auto simp: oneCharacterInserted_def)
  have "length xs < length l" "take (length xs) l @ drop (Suc (length xs)) l = s"
    by (simp_all add: l s)
  then show "list_ex (\<lambda>i. take i l @ drop (Suc i) l = s) [0..<length l]"
    by (auto simp: list_ex_iff)
qed

lemma isVeryCloseMatch_nearExact: "isVeryCloseMatch a b = nearExactMatch a b"
proof (cases "length a = length b")
  case True
  then have "\<not> oneCharacterInserted a b" "\<not> oneCharacterInserted b a"
    using oneCharacterInserted_length by fastforce+
  with True show ?thesis
    by (simp add: isVeryCloseMatch_def nearExactMatch_def differInAtMostOnePosition_def
        countDifferences_card)
next
  case False
  then have d: "\<not> differInAtMostOnePosition a b"
    by (simp add: differInAtMostOnePosition_def)
  show ?thesis
  proof (cases "length a < length b")
    case True
    then have n: "\<not> oneCharacterInserted a b"
      using oneCharacterInserted_length by fastforce
    have "oneCharacterInserted b a \<Longrightarrow> \<bar>int (length a) - int (length b)\<bar> = 1"
      using oneCharacterInserted_length [of b a] by simp
    with True False d n show ?thesis
      by (auto simp: isVeryCloseMatch_def nearExactMatch_def Let_def removal_iff_inserted
          simp del: upt_Suc)
  next
    case ge: False
    with False have gt: "length b < length a" by simp
    then have n: "\<not> oneCharacterInserted b a"
      using oneCharacterInserted_length by fastforce
    have "oneCharacterInserted a b \<Longrightarrow> \<bar>int (length a) - int (length b)\<bar> = 1"
      using oneCharacterInserted_length [of a b] by simp
    with ge False d n show ?thesis
      by (auto simp: isVeryCloseMatch_def nearExactMatch_def Let_def removal_iff_inserted
          simp del: upt_Suc)
  qed
qed

text \<open>
  C6. When the two normalised strings (the cleaned user input; the cleaned
  dialogue extracted from the expected line) are not equal but are a near-exact
  match - the same length and at most one differing position, or one is the
  other with exactly one character inserted - \<open>calculateSimilarity\<close> returns
  similarity 0.95, \<open>veryCloseMatch\<close> and \<open>isCorrect\<close>, and sends nothing to the
  embedding service.
\<close>

theorem calculateSimilarity_near_exact:
  "userClean user \<noteq> expectedClean expected0 \<Longrightarrow>
   nearExactMatch (userClean user) (expectedClean expected0) \<Longrightarrow>
   (\<exists>r. calculateSimilarity emb (Str user) (Str expected0) = (Inr r, []) \<and>
        similarity r = Num (95 / 100) \<and> veryCloseMatch (detailedAnalysis r) \<and>
        \<not> exactMatch (detailedAnalysis r) \<and> isCorrect r \<and> feedback r = VeryCloseMatch)"
  by (simp add: calculateSimilarity_veryClose isVeryCloseMatch_nearExact veryCloseResult_def)

text \<open>The scenario of the specification: one dropped character.\<close>

theorem calculateSimilarity_near_exact_witness:
  "userClean ''Helo world'' \<noteq> expectedClean ''Hello world'' \<and>
   nearExactMatch (userClean ''Helo world'') (expectedClean ''Hello world'') \<and>
   (\<exists>r. calculateSimilarity failingService (Str ''Helo world'') (Str ''Hello world'') = (Inr r, []) \<and>
        similarity r = Num (95 / 100) \<and> veryCloseMatch (detailedAnalysis r) \<and> isCorrect r)"
proof -
  have u: "userClean ''Helo world'' = ''helo world''"
    and e: "expectedClean ''Hello world'' = ''hello world''"
    by code_simp+
  have n: "userClean ''Helo world'' \<noteq> expectedClean ''Hello world''"
    unfolding u e by simp
  have "oneCharacterInserted ''hello world'' ''helo world''"
    unfolding oneCharacterInserted_def
    by (intro exI [of _ "''he''"] exI [of _ "CHR ''l''"] exI [of _ "''lo world''"]) simp
  then have m: "nearExactMatch (userClean ''Helo world'') (expectedClean ''Hello world'')"
    unfolding u e nearExactMatch_def by simp
  from calculateSimilarity_near_exact [OF n m, of failingService] n m show ?thesis
    by blast
qed

subsection \<open>The embedding tier\<close>









section \<open>The session state machine\<close>

lemma map_upd_eq_iff: "(m(a \<mapsto> x) = m(a \<mapsto> y)) = (x = y)"
  by (auto dest: map_upd_eqD1)

lemma continuePractice_step:
  assumes s: "db sessionId = Some s" and a: "status s = active"
    and i: "current_line_index s < length (userLinesOf s)"
    and ev: "score userResponse (line_text (userLinesOf s ! current_line_index s)) = Inr ev"
  shows "\<exists>s' r. continuePractice score now db sessionId userResponse
                  = Inr (db(sessionId \<mapsto> s'), r) \<and>
           evaluation r = ev \<and>
           is_session_complete r = (length (userLinesOf s) \<le> current_line_index s + 1) \<and>
           session_progress s' = session_progress s @
             [\<lparr>pp_line_number = line_number (userLinesOf s ! current_line_index s),
               expected_text = line_text (userLinesOf s ! current_line_index s),
               user_response = userResponse,
               similarity_score = similarity ev, is_correct = isCorrect ev,
               pp_feedback = feedback ev, attempt_number = total_attempts s + 1,
               timestamp = int now\<rparr>] \<and>
           total_attempts s' = total_attempts s + 1 \<and>
           correct_answers s' = correct_answers s + (if isCorrect ev then 1 else 0) \<and>
           current_line_index s' = current_line_index s + 1 \<and>
           status s' = (if length (userLinesOf s) \<le> current_line_index s + 1
                        then completed else active) \<and>
           completed_at s' = (if length (userLinesOf s) \<le> current_line_index s + 1
                              then Some (int now) else completed_at s) \<and>
           updated_at s' = int now \<and>
           dialogue_lines s' = dialogue_lines s \<and> character s' = character s \<and>
           total_lines s' = total_lines s \<and> started_at s' = started_at s \<and>
           session_id s' = session_id s \<and> user_id s' = user_id s"
proof (cases "isCorrect ev")
  case True
  show ?thesis
  proof (cases "length (userLinesOf s) \<le> current_line_index s + 1")
    case c: True
    with True s a i ev show ?thesis
      unfolding userLinesOf_def continuePractice_def by (simp add: Let_def map_upd_eq_iff)
  next
    case c: False
    with True s a i ev show ?thesis
      unfolding userLinesOf_def continuePractice_def by (simp add: Let_def map_upd_eq_iff)
  qed
next
  case False
  show ?thesis
  proof (cases "length (userLinesOf s) \<le> current_line_index s + 1")
    case c: True
    with False s a i ev show ?thesis
      unfolding userLinesOf_def continuePractice_def by (simp add: Let_def map_upd_eq_iff)
  next
    case c: False
    with False s a i ev show ?thesis
      unfolding userLinesOf_def continuePractice_def by (simp add: Let_def map_upd_eq_iff)
  qed
qed

lemma continuePractice_conditions:
  assumes "continuePractice score now db sessionId userResponse = Inr (db', r)"
  shows "\<exists>s ev. db sessionId = Some s \<and> status s = active \<and>
           current_line_index s < length (userLinesOf s) \<and>
           score userResponse (line_text (userLinesOf s ! current_line_index s)) = Inr ev"
proof -
  from assms obtain s where s: "db sessionId = Some s"
    by (cases "db sessionId") (simp_all add: continuePractice_def)
  from assms s have a: "status s = active"
    by (cases "status s = active") (simp_all add: continuePractice_def)
  from assms s a have i: "current_line_index s < length (userLinesOf s)"
    by (cases "current_line_index s < length (userLinesOf s)")
       (simp_all add: continuePractice_def userLinesOf_def Let_def)
  from assms s a i obtain ev where
    "score userResponse (line_text (userLinesOf s ! current_line_index s)) = Inr ev"
    by (cases "score userResponse (line_text (userLinesOf s ! current_line_index s))")
       (simp_all add: continuePractice_def userLinesOf_def Let_def)
  with s a i show ?thesis by blast
qed

lemma startInteractiveSession_conditions:
  assumes "startInteractiveSession findScene now db userId episodeId character0 sceneNumber
             = Inr (db', r)"
  shows "\<exists>sceneData sceneText.
           findScene episodeId character0 sceneNumber = Some sceneData \<and>
           orString (scene_text sceneData) (raw_text sceneData) = Some sceneText \<and>
           filterUserLines (parseSceneDialogue sceneText) character0 \<noteq> []"
proof (cases "findScene episodeId character0 sceneNumber")
  case None
  with assms show ?thesis by (simp add: startInteractiveSession_def)
next
  case f: (Some sceneData)
  show ?thesis
  proof (cases "orString (scene_text sceneData) (raw_text sceneData)")
    case None
    with assms f show ?thesis by (simp add: startInteractiveSession_def)
  next
    case t: (Some sceneText)
    show ?thesis
    proof (cases "filterUserLines (parseSceneDialogue sceneText) character0 = []")
      case True
      with assms f t show ?thesis by (simp add: startInteractiveSession_def Let_def)
    next
      case False
      with f t show ?thesis by simp
    qed
  qed
qed

lemma startInteractiveSession_step:
  assumes f: "findScene episodeId character0 sceneNumber = Some sceneData"
    and t: "orString (scene_text sceneData) (raw_text sceneData) = Some sceneText"
    and n: "filterUserLines (parseSceneDialogue sceneText) character0 \<noteq> []"
  shows "\<exists>s r. startInteractiveSession findScene now db userId episodeId character0 sceneNumber
                 = Inr (db(init_session_id r \<mapsto> s), r) \<and>
           init_session_id r = ''session_'' @ showNat now @ ''_'' @ userId \<and>
           session_id s = init_session_id r \<and> user_id s = userId \<and>
           current_line_index s = 0 \<and> total_attempts s = 0 \<and> correct_answers s = 0 \<and>
           session_progress s = [] \<and> status s = active \<and> completed_at s = None \<and>
           character s = character0 \<and> started_at s = int now \<and>
           dialogue_lines s = parseSceneDialogue sceneText \<and>
           total_lines s = length (userLinesOf s) \<and> 1 \<le> total_lines s \<and>
           init_total_lines r = total_lines s"
proof -
  from n have m: "Suc 0 \<le> length (filterUserLines (parseSceneDialogue sceneText) character0)"
    by (cases "filterUserLines (parseSceneDialogue sceneText) character0") simp_all
  let ?sid = "''session_'' @ showNat now @ ''_'' @ userId"
  let ?ul = "filterUserLines (parseSceneDialogue sceneText) character0"
  let ?s = "\<lparr>session_id = ?sid, user_id = userId, episode_id = episodeId,
             character = character0,
             scene_number = orNumber (metadata_scene_number sceneData)
                              (doc_scene_number sceneData),
             scene_id = scene_doc_id sceneData,
             current_line_index = 0, total_lines = length ?ul,
             dialogue_lines = parseSceneDialogue sceneText,
             correct_answers = 0, total_attempts = 0, session_progress = [],
             status = active, started_at = int now, completed_at = None,
             created_at = int now, updated_at = int now\<rparr>"
  have "\<exists>r. startInteractiveSession findScene now db userId episodeId character0 sceneNumber
                 = Inr (db(?sid \<mapsto> ?s), r) \<and> init_session_id r = ?sid \<and>
             init_total_lines r = length ?ul"
    using f t n by (simp add: startInteractiveSession_def Let_def)
  then obtain r where r: "startInteractiveSession findScene now db userId episodeId character0 sceneNumber
                 = Inr (db(?sid \<mapsto> ?s), r)" "init_session_id r = ?sid"
             "init_total_lines r = length ?ul"
    by blast
  show ?thesis
    apply (rule exI [of _ ?s])
    apply (rule exI [of _ r])
    using m apply (simp add: r userLinesOf_def)
    done
qed

lemma sessionInvariant_start:
  "current_line_index s = 0 \<Longrightarrow> total_attempts s = 0 \<Longrightarrow> session_progress s = [] \<Longrightarrow>
   status s = active \<Longrightarrow> total_lines s = length (userLinesOf s) \<Longrightarrow> 1 \<le> total_lines s \<Longrightarrow>
   sessionInvariant s"
  by (auto simp: sessionInvariant_def)

lemma sessionInvariant_step:
  assumes inv: "sessionInvariant s" and a: "status s = active"
    and p: "session_progress s' = session_progress s @ [q]"
    and q: "attempt_number q = total_attempts s + 1"
      "pp_line_number q = line_number (userLinesOf s ! current_line_index s)"
      "expected_text q = line_text (userLinesOf s ! current_line_index s)"
    and t: "total_attempts s' = total_attempts s + 1"
    and c: "current_line_index s' = current_line_index s + 1"
    and st: "status s' = (if length (userLinesOf s) \<le> current_line_index s + 1
                          then completed else active)"
    and ca: "completed_at s' = (if length (userLinesOf s) \<le> current_line_index s + 1
                                then Some (int now) else completed_at s)"
    and same: "dialogue_lines s' = dialogue_lines s" "character s' = character s"
      "total_lines s' = total_lines s"
  shows "sessionInvariant s'"
proof -
  have u: "userLinesOf s' = userLinesOf s"
    by (simp add: userLinesOf_def same)
  from inv have i: "total_attempts s = current_line_index s"
      "length (session_progress s) = total_attempts s"
      "total_lines s = length (userLinesOf s)" "1 \<le> total_lines s"
      "current_line_index s < total_lines s"
    and old: "\<forall>i < length (session_progress s).
         attempt_number (session_progress s ! i) = Suc i \<and>
         pp_line_number (session_progress s ! i) = line_number (userLinesOf s ! i) \<and>
         expected_text (session_progress s ! i) = line_text (userLinesOf s ! i)"
    using a by (simp_all add: sessionInvariant_def)
  have new: "\<forall>i < length (session_progress s').
         attempt_number (session_progress s' ! i) = Suc i \<and>
         pp_line_number (session_progress s' ! i) = line_number (userLinesOf s' ! i) \<and>
         expected_text (session_progress s' ! i) = line_text (userLinesOf s' ! i)"
  proof (intro allI impI)
    fix k assume "k < length (session_progress s')"
    then have "k < length (session_progress s) \<or> k = length (session_progress s)"
      by (auto simp: p)
    then show "attempt_number (session_progress s' ! k) = Suc k \<and>
         pp_line_number (session_progress s' ! k) = line_number (userLinesOf s' ! k) \<and>
         expected_text (session_progress s' ! k) = line_text (userLinesOf s' ! k)"
    proof
      assume "k < length (session_progress s)"
      with old show ?thesis by (simp add: p u nth_append)
    next
      assume "k = length (session_progress s)"
      with q i show ?thesis by (simp add: p u nth_append)
    qed
  qed
  from i show ?thesis
    unfolding sessionInvariant_def
    by (intro conjI new) (auto simp: p t c st ca same u)
qed

lemma reachable_invariant:
  "reachable db \<Longrightarrow> db sessionId = Some s \<Longrightarrow> sessionInvariant s"
proof (induction arbitrary: sessionId s rule: reachable.induct)
  case reachable_empty
  then show ?case by simp
next
  case (reachable_start db findPracticeScene now userId episodeId character0 sceneNumber db' response)
  from startInteractiveSession_conditions [OF reachable_start.hyps(2)]
  obtain sceneData sceneText where
      c: "findPracticeScene episodeId character0 sceneNumber = Some sceneData"
         "orString (scene_text sceneData) (raw_text sceneData) = Some sceneText"
         "filterUserLines (parseSceneDialogue sceneText) character0 \<noteq> []"
    by blast
  from startInteractiveSession_step
         [of findPracticeScene episodeId character0 sceneNumber sceneData sceneText now db userId] c
  obtain s0 r0 where e: "startInteractiveSession findPracticeScene now db userId episodeId
                           character0 sceneNumber = Inr (db(init_session_id r0 \<mapsto> s0), r0)"
    and f: "current_line_index s0 = 0" "total_attempts s0 = 0" "session_progress s0 = []"
      "status s0 = active" "total_lines s0 = length (userLinesOf s0)" "1 \<le> total_lines s0"
    by blast
  from e reachable_start.hyps(2) have "db' = db(init_session_id r0 \<mapsto> s0)" "response = r0"
    by simp_all
  moreover from f have "sessionInvariant s0"
    by (rule sessionInvariant_start)
  ultimately have s0: "db' = db(init_session_id response \<mapsto> s0)" "sessionInvariant s0"
    by simp_all
  show ?case
  proof (cases "sessionId = init_session_id response")
    case True
    with s0 reachable_start.prems show ?thesis by simp
  next
    case False
    with s0 reachable_start.prems have "db sessionId = Some s" by simp
    then show ?thesis by (rule reachable_start.IH)
  qed
next
  case (reachable_continue db score now sid userResponse db' response)
  from continuePractice_conditions [OF reachable_continue.hyps(2)]
  obtain s0 ev where c: "db sid = Some s0" "status s0 = active"
      "current_line_index s0 < length (userLinesOf s0)"
      "score userResponse (line_text (userLinesOf s0 ! current_line_index s0)) = Inr ev"
    by blast
  from continuePractice_step [of db sid s0 score userResponse ev now] c
  obtain s1 r1 where e: "continuePractice score now db sid userResponse
                           = Inr (db(sid \<mapsto> s1), r1)"
    and s1: "session_progress s1 = session_progress s0 @
             [\<lparr>pp_line_number = line_number (userLinesOf s0 ! current_line_index s0),
               expected_text = line_text (userLinesOf s0 ! current_line_index s0),
               user_response = userResponse,
               similarity_score = similarity ev, is_correct = isCorrect ev,
               pp_feedback = feedback ev, attempt_number = total_attempts s0 + 1,
               timestamp = int now\<rparr>]"
      "total_attempts s1 = total_attempts s0 + 1"
      "current_line_index s1 = current_line_index s0 + 1"
      "status s1 = (if length (userLinesOf s0) \<le> current_line_index s0 + 1
                        then completed else active)"
      "completed_at s1 = (if length (userLinesOf s0) \<le> current_line_index s0 + 1
                          then Some (int now) else completed_at s0)"
      "dialogue_lines s1 = dialogue_lines s0" "character s1 = character s0"
      "total_lines s1 = total_lines s0"
    by blast
  from e reachable_continue.hyps(2) have d: "db' = db(sid \<mapsto> s1)"
    by simp
  have inv0: "sessionInvariant s0"
    using c(1) by (rule reachable_continue.IH)
  have inv1: "sessionInvariant s1"
    by (rule sessionInvariant_step [OF inv0 c(2) s1(1) _ _ _ s1(2) s1(3) s1(4) s1(5) s1(6) s1(7) s1(8)])
       simp_all
  show ?case
  proof (cases "sessionId = sid")
    case True
    with d reachable_continue.prems inv1 show ?thesis by simp
  next
    case False
    with d reachable_continue.prems have "db sessionId = Some s" by simp
    then show ?thesis by (rule reachable_continue.IH)
  qed
qed

lemma completeSession_reachable:
  assumes "reachable db" and "db sessionId = Some s" and "status s = completed"
  shows "\<exists>r. completeSession db sessionId = Inr r"
proof -
  from assms have "completed_at s \<noteq> None"
    using reachable_invariant [of db sessionId s] by (simp add: sessionInvariant_def)
  then obtain c where "completed_at s = Some c"
    by auto
  with assms(2,3) show ?thesis
    by (simp add: completeSession_def getSessionStatus_def Let_def)
qed

text \<open>
  C1. Take a store that the core can produce - reachable from the empty
  collection by successful calls of \<open>startInteractiveSession\<close> and
  \<open>continuePractice\<close> - and in it a session that is active, with its cursor below
  \<open>total_lines\<close>. Every successful \<open>continuePractice\<close> on it appends exactly one
  progress entry, built from the evaluation of the response against the
  current line, adds 1 to \<open>total_attempts\<close>, adds 1 to \<open>correct_answers\<close> exactly
  if the evaluation is correct, adds 1 to \<open>current_line_index\<close> either way, and
  sets the status to \<open>completed\<close>, with the completion time, exactly when the new
  index equals \<open>total_lines\<close>; otherwise the session stays active. No other
  session changes. (The code compares the new index with the number of lines
  of the practised character; in every such store \<open>total_lines\<close> is that number.)
\<close>

theorem continuePractice_advances:
  "reachable db \<Longrightarrow> db sessionId = Some s \<Longrightarrow> status s = active \<Longrightarrow>
   current_line_index s < total_lines s \<Longrightarrow>
   continuePractice score now db sessionId userResponse = Inr (db', r) \<Longrightarrow>
   (\<exists>s' ev. db' sessionId = Some s' \<and> (\<forall>k. k \<noteq> sessionId \<longrightarrow> db' k = db k) \<and>
      score userResponse (line_text (userLinesOf s ! current_line_index s)) = Inr ev \<and>
      evaluation r = ev \<and>
      session_progress s' = session_progress s @
        [\<lparr>pp_line_number = line_number (userLinesOf s ! current_line_index s),
          expected_text = line_text (userLinesOf s ! current_line_index s),
          user_response = userResponse,
          similarity_score = similarity ev, is_correct = isCorrect ev,
          pp_feedback = feedback ev, attempt_number = total_attempts s + 1,
          timestamp = int now\<rparr>] \<and>
      total_attempts s' = total_attempts s + 1 \<and>
      correct_answers s' = correct_answers s + (if isCorrect ev then 1 else 0) \<and>
      current_line_index s' = current_line_index s + 1 \<and>
      total_lines s' = total_lines s \<and>
      (status s' = completed \<longleftrightarrow> current_line_index s' = total_lines s') \<and>
      (status s' = completed \<longrightarrow> completed_at s' = Some (int now)) \<and>
      (status s' \<noteq> completed \<longrightarrow> status s' = active \<and> completed_at s' = completed_at s) \<and>
      is_session_complete r = (status s' = completed))"
proof -
  assume re: "reachable db" and s: "db sessionId = Some s" and a: "status s = active"
    and i: "current_line_index s < total_lines s"
    and c: "continuePractice score now db sessionId userResponse = Inr (db', r)"
  from reachable_invariant [OF re s] have t: "total_lines s = length (userLinesOf s)"
    by (simp add: sessionInvariant_def)
  from continuePractice_conditions [OF c] s obtain ev where
    ev: "score userResponse (line_text (userLinesOf s ! current_line_index s)) = Inr ev"
    by auto
  from i t have i': "current_line_index s < length (userLinesOf s)"
    by simp
  from continuePractice_step [of db sessionId s score userResponse ev now] s a i' ev
  obtain s' r' where e: "continuePractice score now db sessionId userResponse
                           = Inr (db(sessionId \<mapsto> s'), r')"
    and f: "evaluation r' = ev"
      "is_session_complete r' = (length (userLinesOf s) \<le> current_line_index s + 1)"
      "session_progress s' = session_progress s @
        [\<lparr>pp_line_number = line_number (userLinesOf s ! current_line_index s),
          expected_text = line_text (userLinesOf s ! current_line_index s),
          user_response = userResponse,
          similarity_score = similarity ev, is_correct = isCorrect ev,
          pp_feedback = feedback ev, attempt_number = total_attempts s + 1,
          timestamp = int now\<rparr>]"
      "total_attempts s' = total_attempts s + 1"
      "correct_answers s' = correct_answers s + (if isCorrect ev then 1 else 0)"
      "current_line_index s' = current_line_index s + 1"
      "status s' = (if length (userLinesOf s) \<le> current_line_index s + 1
                    then completed else active)"
      "completed_at s' = (if length (userLinesOf s) \<le> current_line_index s + 1
                          then Some (int now) else completed_at s)"
      "total_lines s' = total_lines s"
    by blast
  from e c have d: "db' = db(sessionId \<mapsto> s')" "r = r'"
    by simp_all
  have g: "(length (userLinesOf s) \<le> Suc (current_line_index s))
             = (Suc (current_line_index s) = total_lines s)"
    using i t by auto
  show ?thesis
    apply (rule exI [of _ s'])
    apply (rule exI [of _ ev])
    apply (simp add: d ev f g)
    done
qed

lemma projr_eq: "\<not> isl x \<Longrightarrow> x = Inr (fst (projr x), snd (projr x))"
  by (cases x) simp_all

lemma the_eq: "x \<noteq> None \<Longrightarrow> x = Some (the x)"
  by simp

lemma duoScene_turns:
  "filterUserLines
     (parseSceneDialogue duoText) ''Ross''
   = [\<lparr>line_number = 1, type = dialogue, speaker = Some ''Ross'', line_text = ''Hi'',
        is_user_line = True\<rparr>,
      \<lparr>line_number = 3, type = dialogue, speaker = Some ''Ross'', line_text = ''Bye'',
        is_user_line = True\<rparr>]"
  by code_simp

lemma showNat_1000: "showNat 1000 = ''1000''"
  by code_simp

text \<open>The theorem along a run over the scene with two turns: the store after
  the start is reachable and its session active at turn 0 of 2; a wrong answer
  leaves the session active at index 1; the right answer to the second turn
  completes it at index 2.\<close>

theorem continuePractice_advances_witness:
  "\<exists>db0 r0 s0 db1 r1 s1 db2 r2 s2.
     startInteractiveSession duoFinder 1000 Map.empty ''u2'' ''S01E01'' ''Ross'' None
       = Inr (db0, r0) \<and>
     reachable db0 \<and> db0 ''session_1000_u2'' = Some s0 \<and> status s0 = active \<and>
     current_line_index s0 < total_lines s0 \<and>
     continuePractice literalScorer 2000 db0 ''session_1000_u2'' ''No'' = Inr (db1, r1) \<and>
     db1 ''session_1000_u2'' = Some s1 \<and> length (session_progress s1) = 1 \<and>
     total_attempts s1 = 1 \<and> correct_answers s1 = 0 \<and> current_line_index s1 = 1 \<and>
     total_lines s1 = 2 \<and> status s1 = active \<and> completed_at s1 = None \<and>
     reachable db1 \<and>
     continuePractice literalScorer 3000 db1 ''session_1000_u2'' ''Bye'' = Inr (db2, r2) \<and>
     db2 ''session_1000_u2'' = Some s2 \<and> length (session_progress s2) = 2 \<and>
     total_attempts s2 = 2 \<and> correct_answers s2 = 1 \<and> current_line_index s2 = 2 \<and>
     status s2 = completed \<and> completed_at s2 = Some 3000"
proof -
  let ?sid = "''session_1000_u2''"
  let ?text = "duoText"
  have f: "duoFinder ''S01E01'' ''Ross'' None = Some duoScene"
    by (simp add: duoFinder_def)
  have t: "orString (scene_text duoScene) (raw_text duoScene) = Some ?text"
    by (simp add: duoScene_def orString_def duoText_def)
  have n: "filterUserLines (parseSceneDialogue ?text) ''Ross'' \<noteq> []"
    unfolding duoScene_turns by simp
  from startInteractiveSession_step
         [of duoFinder "''S01E01''" "''Ross''" None duoScene ?text 1000 Map.empty "''u2''"] f t n
  obtain s0 r0 where
      e0: "startInteractiveSession duoFinder 1000 Map.empty ''u2'' ''S01E01'' ''Ross'' None
             = Inr (Map.empty(init_session_id r0 \<mapsto> s0), r0)"
    and i0: "init_session_id r0 = ''session_'' @ showNat 1000 @ ''_'' @ ''u2''"
    and s0: "current_line_index s0 = 0" "total_attempts s0 = 0" "correct_answers s0 = 0"
      "session_progress s0 = []" "status s0 = active" "completed_at s0 = None"
      "character s0 = ''Ross''" "dialogue_lines s0 = parseSceneDialogue ?text"
      "total_lines s0 = length (userLinesOf s0)"
    by blast
  from i0 have sid: "init_session_id r0 = ?sid"
    by (simp add: showNat_1000)
  let ?db0 = "Map.empty(?sid \<mapsto> s0)"
  from e0 sid have e0': "startInteractiveSession duoFinder 1000 Map.empty ''u2'' ''S01E01''
                           ''Ross'' None = Inr (?db0, r0)"
    by simp
  have re0: "reachable ?db0"
    using reachable_empty e0' by (rule reachable_start)
  have u0: "userLinesOf s0 =
      [\<lparr>line_number = 1, type = dialogue, speaker = Some ''Ross'', line_text = ''Hi'',
         is_user_line = True\<rparr>,
       \<lparr>line_number = 3, type = dialogue, speaker = Some ''Ross'', line_text = ''Bye'',
         is_user_line = True\<rparr>]"
    by (simp add: userLinesOf_def s0 duoScene_turns)
  have d0: "?db0 ?sid = Some s0" by simp
  have l0: "current_line_index s0 < total_lines s0"
    by (simp add: s0 u0)
  have sc1: "literalScorer ''No'' (line_text (userLinesOf s0 ! current_line_index s0))
               = Inr (scoredResult ''Hi'' 0 0 None (Num 0))"
    by (simp add: s0 u0 literalScorer_def)
  from continuePractice_step
         [of ?db0 ?sid s0 literalScorer "''No''" "scoredResult ''Hi'' 0 0 None (Num 0)" 2000]
       d0 s0(5) l0 sc1 s0(9)
  obtain s1 r1 where e1: "continuePractice literalScorer 2000 ?db0 ?sid ''No''
                            = Inr (?db0(?sid \<mapsto> s1), r1)"
    and k1: "dialogue_lines s1 = dialogue_lines s0" "character s1 = character s0"
    by auto
  let ?db1 = "?db0(?sid \<mapsto> s1)"
  from continuePractice_advances [OF re0 d0 s0(5) l0 e1]
  obtain s1' ev1 where a1: "?db1 ?sid = Some s1'"
      "literalScorer ''No'' (line_text (userLinesOf s0 ! current_line_index s0)) = Inr ev1"
      "session_progress s1' = session_progress s0 @
        [\<lparr>pp_line_number = line_number (userLinesOf s0 ! current_line_index s0),
          expected_text = line_text (userLinesOf s0 ! current_line_index s0),
          user_response = ''No'',
          similarity_score = similarity ev1, is_correct = isCorrect ev1,
          pp_feedback = feedback ev1, attempt_number = total_attempts s0 + 1,
          timestamp = int 2000\<rparr>]"
      "total_attempts s1' = total_attempts s0 + 1"
      "correct_answers s1' = correct_answers s0 + (if isCorrect ev1 then 1 else 0)"
      "current_line_index s1' = current_line_index s0 + 1"
      "total_lines s1' = total_lines s0"
      "(status s1' = completed) = (current_line_index s1' = total_lines s1')"
      "status s1' \<noteq> completed \<longrightarrow> status s1' = active \<and> completed_at s1' = completed_at s0"
    by blast
  from a1(1) have eq1: "s1' = s1" by simp
  from a1(2) have c1: "\<not> isCorrect ev1"
    unfolding sc1 by (auto simp: scoredResult_def js_ge_def)
  have v1: "length (session_progress s1) = 1" "total_attempts s1 = 1" "correct_answers s1 = 0"
      "current_line_index s1 = 1" "total_lines s1 = 2" "status s1 = active"
      "completed_at s1 = None"
    using a1 c1 unfolding eq1 by (simp_all add: s0 u0)
  have re1: "reachable ?db1"
    using re0 e1 by (rule reachable_continue)
  have d1: "?db1 ?sid = Some s1" by simp
  have u1: "userLinesOf s1 = userLinesOf s0"
    by (simp add: userLinesOf_def k1)
  have l1: "current_line_index s1 < total_lines s1"
    by (simp add: v1)
  have sc2: "literalScorer ''Bye'' (line_text (userLinesOf s1 ! current_line_index s1))
               = Inr exactResult"
    by (simp add: v1 u1 u0 literalScorer_def)
  have l1': "current_line_index s1 < length (userLinesOf s1)"
    by (simp add: v1 u1 u0)
  from continuePractice_step [of ?db1 ?sid s1 literalScorer "''Bye''" exactResult 3000]
       d1 v1(6) l1' sc2
  obtain s2 r2 where e2: "continuePractice literalScorer 3000 ?db1 ?sid ''Bye''
                            = Inr (?db1(?sid \<mapsto> s2), r2)"
    by auto
  let ?db2 = "?db1(?sid \<mapsto> s2)"
  from continuePractice_advances [OF re1 d1 v1(6) l1 e2]
  obtain s2' ev2 where a2: "?db2 ?sid = Some s2'"
      "literalScorer ''Bye'' (line_text (userLinesOf s1 ! current_line_index s1)) = Inr ev2"
      "session_progress s2' = session_progress s1 @
        [\<lparr>pp_line_number = line_number (userLinesOf s1 ! current_line_index s1),
          expected_text = line_text (userLinesOf s1 ! current_line_index s1),
          user_response = ''Bye'',
          similarity_score = similarity ev2, is_correct = isCorrect ev2,
          pp_feedback = feedback ev2, attempt_number = total_attempts s1 + 1,
          timestamp = int 3000\<rparr>]"
      "total_attempts s2' = total_attempts s1 + 1"
      "correct_answers s2' = correct_answers s1 + (if isCorrect ev2 then 1 else 0)"
      "current_line_index s2' = current_line_index s1 + 1"
      "total_lines s2' = total_lines s1"
      "(status s2' = completed) = (current_line_index s2' = total_lines s2')"
      "status s2' = completed \<longrightarrow> completed_at s2' = Some (int 3000)"
    by blast
  from a2(1) have eq2: "s2' = s2" by simp
  from a2(2) have c2: "isCorrect ev2"
    unfolding sc2 by (auto simp: exactResult_def)
  have v2: "length (session_progress s2) = 2" "total_attempts s2 = 2" "correct_answers s2 = 1"
      "current_line_index s2 = 2" "status s2 = completed" "completed_at s2 = Some 3000"
    using a2 c2 unfolding eq2 by (simp_all add: v1)
  have d2: "?db2 ?sid = Some s2" by simp
  from e0' re0 d0 s0(5) l0 e1 d1 v1 re1 e2 d2 v2 show ?thesis
    by blast
qed

text \<open>
  C9. \<open>startInteractiveSession\<close> stores the new session with \<open>total_attempts\<close>
  and \<open>current_line_index\<close> both 0, and every successful \<open>continuePractice\<close>
  adds 1 to both. So in every store that is reachable from the empty one by
  successful calls of the two, each session has \<open>total_attempts\<close> equal to
  \<open>current_line_index\<close> and to the number of its progress entries; its i-th
  entry (from 0) has \<open>attempt_number\<close> i + 1 and records the line number and text
  of the i-th turn of the practised character; and a completed session has
  \<open>total_attempts = total_lines\<close>, at least 1.
\<close>

theorem attempts_equal_cursor:
  "(startInteractiveSession findScene now0 db0 userId episodeId character0 sceneNumber
      = Inr (db1, r1) \<longrightarrow>
      (\<exists>s. db1 (init_session_id r1) = Some s \<and> total_attempts s = 0 \<and>
           current_line_index s = 0 \<and> session_progress s = [])) \<and>
   (db2 sessionId2 = Some s2 \<and>
    continuePractice score now2 db2 sessionId2 userResponse = Inr (db3, r3) \<longrightarrow>
      (\<exists>s3. db3 sessionId2 = Some s3 \<and> total_attempts s3 = total_attempts s2 + 1 \<and>
            current_line_index s3 = current_line_index s2 + 1)) \<and>
   (reachable db \<and> db sessionId = Some s \<longrightarrow>
      total_attempts s = current_line_index s \<and>
      length (session_progress s) = total_attempts s \<and>
      (\<forall>i < length (session_progress s).
         attempt_number (session_progress s ! i) = i + 1 \<and>
         pp_line_number (session_progress s ! i) = line_number (userLinesOf s ! i) \<and>
         expected_text (session_progress s ! i) = line_text (userLinesOf s ! i)) \<and>
      (status s = completed \<longrightarrow> total_attempts s = total_lines s \<and> 1 \<le> total_lines s))"
proof (intro conjI impI)
  assume a: "startInteractiveSession findScene now0 db0 userId episodeId character0 sceneNumber
      = Inr (db1, r1)"
  from startInteractiveSession_conditions [OF a]
  obtain sceneData sceneText where
      c: "findScene episodeId character0 sceneNumber = Some sceneData"
         "orString (scene_text sceneData) (raw_text sceneData) = Some sceneText"
         "filterUserLines (parseSceneDialogue sceneText) character0 \<noteq> []"
    by blast
  from startInteractiveSession_step
         [of findScene episodeId character0 sceneNumber sceneData sceneText now0 db0 userId] c
  obtain s0 r0 where e: "startInteractiveSession findScene now0 db0 userId episodeId
                           character0 sceneNumber = Inr (db0(init_session_id r0 \<mapsto> s0), r0)"
    and f: "current_line_index s0 = 0" "total_attempts s0 = 0" "session_progress s0 = []"
    by blast
  from e a have "db1 = db0(init_session_id r0 \<mapsto> s0)" "r1 = r0"
    by simp_all
  with f show "\<exists>s. db1 (init_session_id r1) = Some s \<and> total_attempts s = 0 \<and>
           current_line_index s = 0 \<and> session_progress s = []"
    by simp
next
  assume a: "db2 sessionId2 = Some s2 \<and>
    continuePractice score now2 db2 sessionId2 userResponse = Inr (db3, r3)"
  then have b: "continuePractice score now2 db2 sessionId2 userResponse = Inr (db3, r3)"
    by simp
  from continuePractice_conditions [OF b] a obtain ev where c: "status s2 = active"
      "current_line_index s2 < length (userLinesOf s2)"
      "score userResponse (line_text (userLinesOf s2 ! current_line_index s2)) = Inr ev"
    by auto
  from continuePractice_step [of db2 sessionId2 s2 score userResponse ev now2] a c
  obtain s' r' where e: "continuePractice score now2 db2 sessionId2 userResponse
                           = Inr (db2(sessionId2 \<mapsto> s'), r')"
    and f: "total_attempts s' = total_attempts s2 + 1"
      "current_line_index s' = current_line_index s2 + 1"
    by blast
  from e b have "db3 = db2(sessionId2 \<mapsto> s')"
    by simp
  with f show "\<exists>s3. db3 sessionId2 = Some s3 \<and> total_attempts s3 = total_attempts s2 + 1 \<and>
            current_line_index s3 = current_line_index s2 + 1"
    by simp
next
  assume "reachable db \<and> db sessionId = Some s"
  then have inv: "sessionInvariant s"
    using reachable_invariant by blast
  from inv show "total_attempts s = current_line_index s"
    and "length (session_progress s) = total_attempts s"
    and "\<forall>i < length (session_progress s).
         attempt_number (session_progress s ! i) = i + 1 \<and>
         pp_line_number (session_progress s ! i) = line_number (userLinesOf s ! i) \<and>
         expected_text (session_progress s ! i) = line_text (userLinesOf s ! i)"
    by (simp_all add: sessionInvariant_def)
  assume "status s = completed"
  with inv show "total_attempts s = total_lines s" and "1 \<le> total_lines s"
    by (simp_all add: sessionInvariant_def)
qed

text \<open>The run over the scene with one turn: its store is reachable, and its
  session ends completed with one attempt at index 1 of 1.\<close>

theorem attempts_equal_cursor_witness:
  "\<not> isl soloStart \<and> \<not> isl soloTurn1 \<and> reachable (fst (projr soloTurn1)) \<and>
   (\<exists>s. fst (projr soloStart) ''session_1000_u2'' = Some s \<and>
        total_attempts s = 0 \<and> current_line_index s = 0) \<and>
   (\<exists>s. fst (projr soloTurn1) ''session_1000_u2'' = Some s \<and> status s = completed \<and>
        total_attempts s = 1 \<and> current_line_index s = 1 \<and> total_lines s = 1 \<and>
        length (session_progress s) = 1)"
proof -
  let ?sid = "''session_1000_u2''"
  let ?db0 = "fst (projr soloStart)" and ?db1 = "fst (projr soloTurn1)"
  have i: "\<not> isl soloStart" "\<not> isl soloTurn1"
    by code_simp+
  have n: "init_session_id (snd (projr soloStart)) = ?sid" "?db0 ?sid \<noteq> None"
      "?db1 ?sid \<noteq> None" "status (the (?db1 ?sid)) = completed"
    by code_simp+
  have e0: "startInteractiveSession soloFinder 1000 Map.empty ''u2'' ''S01E01'' ''Ross'' None
              = Inr (?db0, snd (projr soloStart))"
    using projr_eq [OF i(1)] by (simp only: soloStart_def [symmetric])
  have e1: "continuePractice literalScorer 2000 ?db0 ?sid ''Hi'' = Inr (?db1, snd (projr soloTurn1))"
    using projr_eq [OF i(2)] by (simp only: soloTurn1_def [symmetric])
  have r0: "reachable ?db0"
    using reachable_empty e0 by (rule reachable_start)
  have r1: "reachable ?db1"
    using r0 e1 by (rule reachable_continue)
  note t = attempts_equal_cursor
             [of soloFinder 1000 Map.empty "''u2''" "''S01E01''" "''Ross''" None ?db0
                 "snd (projr soloStart)"
                 ?db0 ?sid "the (?db0 ?sid)" literalScorer 2000 "''Hi''" ?db1
                 "snd (projr soloTurn1)"
                 ?db1 ?sid "the (?db1 ?sid)"]
  from t e0 have a: "\<exists>s. ?db0 ?sid = Some s \<and> total_attempts s = 0 \<and> current_line_index s = 0"
    unfolding n(1) by blast
  with the_eq [OF n(2)] have s0: "total_attempts (the (?db0 ?sid)) = 0"
      "current_line_index (the (?db0 ?sid)) = 0"
    by auto
  from t the_eq [OF n(2)] e1 have "\<exists>s3. ?db1 ?sid = Some s3 \<and>
        total_attempts s3 = total_attempts (the (?db0 ?sid)) + 1 \<and>
        current_line_index s3 = current_line_index (the (?db0 ?sid)) + 1"
    by blast
  with s0 have s1: "total_attempts (the (?db1 ?sid)) = 1" "current_line_index (the (?db1 ?sid)) = 1"
    by auto
  from t r1 the_eq [OF n(3)] n(4) have
    "total_attempts (the (?db1 ?sid)) = total_lines (the (?db1 ?sid)) \<and>
     length (session_progress (the (?db1 ?sid))) = total_attempts (the (?db1 ?sid))"
    by blast
  with s1 n(4) the_eq [OF n(3)] have b: "\<exists>s. ?db1 ?sid = Some s \<and> status s = completed \<and>
        total_attempts s = 1 \<and> current_line_index s = 1 \<and> total_lines s = 1 \<and>
        length (session_progress s) = 1"
    by (intro exI [of _ "the (?db1 ?sid)"]) simp
  from i r1 a b show ?thesis by blast
qed

section \<open>Normalisation and the exact match\<close>

lemma isPunctuation_code:
  "isPunctuation c = (of_char c \<in> {46, 33, 63, 44, 34, 39, 45 :: nat})"
proof -
  have "\<And>d. (c = d) = ((of_char c :: nat) = of_char d)"
    by simp
  then show ?thesis
    unfolding isPunctuation_def by (simp only: insert_iff empty_iff) simp
qed

lemma toLowerChar_space [simp]: "isWhiteSpace (toLowerChar c) = isWhiteSpace c"
  by (auto simp: toLowerChar_def isWhiteSpace_def Let_def)

lemma toLowerChar_punctuation [simp]: "isPunctuation (toLowerChar c) = isPunctuation c"
  by (auto simp: toLowerChar_def isPunctuation_code Let_def)

lemma toLowerChar_blank [simp]: "toLowerChar (CHR '' '') = CHR '' ''"
  by (simp add: toLowerChar_def)

lemma isWhiteSpace_blank [simp]: "isWhiteSpace (CHR '' '')"
  by (simp add: isWhiteSpace_def)

lemma whiteSpace_not_punctuation: "isWhiteSpace c \<Longrightarrow> \<not> isPunctuation c"
  by (auto simp: isWhiteSpace_def isPunctuation_code)

lemma hyphen_is_punctuation [simp]: "isPunctuation (CHR ''-'')"
  by (simp add: isPunctuation_def)

lemma split_ws_not_empty: "split_ws s \<noteq> []"
  by (induction s rule: split_ws.induct) (auto split: list.split)

lemma join_Cons_head: "ws \<noteq> [] \<Longrightarrow> join sep ((c # hd ws) # tl ws) = c # join sep ws"
  by (cases ws; cases "tl ws") auto

lemma squeeze_True: "squeeze True s = squeeze False (dropWhile isWhiteSpace s)"
  by (induction s) simp_all

lemma collapse_squeeze: "collapseWhiteSpace s = squeeze False s"
  unfolding collapseWhiteSpace_def
proof (induction s rule: split_ws.induct)
  case 1
  show ?case by simp
next
  case (2 c cs)
  show ?case
  proof (cases "isWhiteSpace c")
    case True
    obtain w ws where w: "split_ws (dropWhile isWhiteSpace cs) = w # ws"
      using split_ws_not_empty by (cases "split_ws (dropWhile isWhiteSpace cs)") auto
    from True 2(1) have "join '' '' (split_ws (dropWhile isWhiteSpace cs))
        = squeeze False (dropWhile isWhiteSpace cs)"
      by simp
    with True w show ?thesis
      by (simp add: squeeze_True)
  next
    case False
    obtain w ws where w: "split_ws cs = w # ws"
      using split_ws_not_empty by (cases "split_ws cs") auto
    from False 2(2) have "join '' '' (split_ws cs) = squeeze False cs"
      by simp
    with False w join_Cons_head [of "w # ws" "'' ''" c] show ?thesis
      by simp
  qed
qed

lemma squeeze_map_lower: "map toLowerChar (squeeze b s) = squeeze b (map toLowerChar s)"
  by (induction s arbitrary: b) simp_all

lemma dropWhile_squeeze_start:
  "s = [] \<or> \<not> isWhiteSpace (hd s) \<Longrightarrow> dropWhile isWhiteSpace (squeeze b s) = squeeze b s"
  by (cases s) auto

lemma trimStart_squeeze: "trimStart (squeeze False s) = squeeze False (trimStart s)"
proof (cases s)
  case Nil
  then show ?thesis by (simp add: trimStart_def)
next
  case (Cons c cs)
  have d: "dropWhile isWhiteSpace cs = [] \<or> \<not> isWhiteSpace (hd (dropWhile isWhiteSpace cs))"
    using hd_dropWhile [of isWhiteSpace cs] by blast
  show ?thesis
  proof (cases "isWhiteSpace c")
    case True
    with Cons dropWhile_squeeze_start [OF d, of False] show ?thesis
      by (simp add: trimStart_def squeeze_True)
  next
    case False
    with Cons show ?thesis by (simp add: trimStart_def)
  qed
qed

lemma trimEnd_Nil [simp]: "trimEnd [] = []"
  by (simp add: trimEnd_def)

lemma trimEnd_Cons:
  "trimEnd (c # cs) = (if \<forall>x \<in> set (c # cs). isWhiteSpace x then [] else c # trimEnd cs)"
  by (auto simp: trimEnd_def dropWhile_append)

lemma trimEnd_all_space: "\<forall>x \<in> set s. isWhiteSpace x \<Longrightarrow> trimEnd s = []"
  by (simp add: trimEnd_def)

lemma squeeze_all_space: "\<forall>x \<in> set s. isWhiteSpace x \<Longrightarrow> \<forall>x \<in> set (squeeze b s). isWhiteSpace x"
  by (induction s arbitrary: b) auto

lemma squeeze_some_letter:
  "\<exists>x \<in> set s. \<not> isWhiteSpace x \<Longrightarrow> \<exists>x \<in> set (squeeze b s). \<not> isWhiteSpace x"
  by (induction s arbitrary: b) auto

lemma trimEnd_squeeze: "trimEnd (squeeze b s) = squeeze b (trimEnd s)"
proof (induction s arbitrary: b)
  case Nil
  show ?case by simp
next
  case (Cons c cs)
  show ?case
  proof (cases "\<forall>x \<in> set (c # cs). isWhiteSpace x")
    case True
    then have "trimEnd (squeeze b (c # cs)) = []"
      by (intro trimEnd_all_space squeeze_all_space)
    with True show ?thesis by (simp add: trimEnd_Cons)
  next
    case False
    then have n: "\<exists>x \<in> set (c # cs). \<not> isWhiteSpace x" by blast
    show ?thesis
    proof (cases "isWhiteSpace c")
      case True
      with n have "\<exists>x \<in> set cs. \<not> isWhiteSpace x" by auto
      then have "\<exists>x \<in> set (squeeze True cs). \<not> isWhiteSpace x"
        by (rule squeeze_some_letter)
      with True False Cons.IH [of True] show ?thesis
        by (auto simp: trimEnd_Cons)
    next
      case c: False
      with False Cons.IH [of False] show ?thesis
        by (auto simp: trimEnd_Cons)
    qed
  qed
qed

lemma trim_squeeze: "trim (squeeze False s) = squeeze False (trim s)"
  by (simp add: trim_def trimStart_squeeze trimEnd_squeeze)

lemma squeeze_filter_squeeze:
  "(b' \<longrightarrow> b) \<Longrightarrow>
   squeeze b (filter (\<lambda>c. \<not> isPunctuation c) (squeeze b' s))
     = squeeze b (filter (\<lambda>c. \<not> isPunctuation c) s)"
proof (induction s arbitrary: b b')
  case Nil
  show ?case by simp
next
  case (Cons c cs)
  show ?case
  proof (cases "isWhiteSpace c")
    case True
    then have p: "\<not> isPunctuation c" by (rule whiteSpace_not_punctuation)
    have q: "\<not> isPunctuation (CHR '' '')"
      by (rule whiteSpace_not_punctuation) simp
    from Cons.IH [of True True] True p q Cons.prems show ?thesis
      by simp
  next
    case False
    with Cons.IH [of False b] Cons.IH [of False False] show ?thesis
      by simp
  qed
qed

lemma trimStart_map_lower: "trimStart (map toLowerChar s) = map toLowerChar (trimStart s)"
  by (simp add: trimStart_def dropWhile_map comp_def)

lemma trimEnd_map_lower: "trimEnd (map toLowerChar s) = map toLowerChar (trimEnd s)"
  by (simp add: trimEnd_def rev_map dropWhile_map comp_def)

lemma trim_map_lower: "trim (map toLowerChar s) = map toLowerChar (trim s)"
  by (simp add: trim_def trimStart_map_lower trimEnd_map_lower)

lemma trim_idem: "trim (trim s) = trim s"
proof -
  have a: "trimStart (trimEnd t) = trimEnd (trimStart t)" for t
  proof (induction t)
    case Nil
    show ?case by (simp add: trimStart_def)
  next
    case (Cons c cs)
    then show ?case
      by (auto simp: trimStart_def trimEnd_Cons trimEnd_all_space dest: set_dropWhileD)
  qed
  have b: "trimStart (trimStart t) = trimStart t" for t
    by (simp add: trimStart_def)
  have c: "trimEnd (trimEnd t) = trimEnd t" for t
    by (simp add: trimEnd_def)
  show ?thesis
    by (simp add: trim_def a b c)
qed

lemma hyphen_map_after_filter:
  "map (\<lambda>c. if c = CHR ''-'' then CHR '' '' else c) (filter (\<lambda>c. \<not> isPunctuation c) s)
     = filter (\<lambda>c. \<not> isPunctuation c) s"
proof -
  have "\<forall>c \<in> set (filter (\<lambda>c. \<not> isPunctuation c) s). c \<noteq> CHR ''-''"
    by auto
  then show ?thesis
    by (intro map_idI) auto
qed

lemma cleanText_squeeze:
  "cleanTextForComparison t
     = squeeze False (filter (\<lambda>c. \<not> isPunctuation c) (trim (map toLowerChar t)))"
  by (simp add: cleanTextForComparison_def Let_def toLowerCase_def hyphen_map_after_filter
      collapse_squeeze)

lemma cleanText_trim_collapse:
  "cleanTextForComparison (trim (collapseWhiteSpace s)) = cleanTextForComparison s"
proof -
  have "trim (map toLowerChar (trim (squeeze False s)))
          = squeeze False (trim (map toLowerChar s))"
    by (simp add: trim_map_lower [symmetric] trim_idem squeeze_map_lower trim_squeeze)
  then show ?thesis
    by (simp add: cleanText_squeeze collapse_squeeze squeeze_filter_squeeze)
qed

lemma removeSpans_no_span: "\<not> hasSpan opn cls s \<Longrightarrow> removeSpans opn cls s = s"
proof (induction s)
  case Nil
  show ?case by simp
next
  case (Cons c cs)
  have t: "\<not> hasSpan opn cls cs"
  proof
    assume "hasSpan opn cls cs"
    then obtain xs ys zs where "cs = xs @ opn # ys @ cls # zs"
      by (auto simp: hasSpan_def)
    then have "c # cs = (c # xs) @ opn # ys @ cls # zs" by simp
    with Cons.prems show False unfolding hasSpan_def by blast
  qed
  show ?case
  proof (cases "c = opn")
    case True
    have "cls \<notin> set cs"
    proof
      assume "cls \<in> set cs"
      then obtain ys zs where "cs = ys @ cls # zs"
        by (auto simp: in_set_conv_decomp)
      with True have "c # cs = [] @ opn # ys @ cls # zs" by simp
      with Cons.prems show False unfolding hasSpan_def by blast
    qed
    then have d: "dropWhile (\<lambda>d. d \<noteq> cls) cs = []"
      by auto
    show ?thesis by (simp add: True d Cons.IH [OF t])
  next
    case False
    with Cons.IH [OF t] show ?thesis by simp
  qed
qed

lemma no_opening_no_span: "opn \<notin> set s \<Longrightarrow> \<not> hasSpan opn cls s"
  by (auto simp: hasSpan_def)

lemma expectedClean_no_span:
  "\<not> hasSpan (CHR ''('') (CHR '')'') s \<Longrightarrow> \<not> hasSpan (CHR ''['') (CHR '']'') s \<Longrightarrow>
   expectedClean s = userClean s"
  by (simp add: expectedClean_def userClean_def extractDialogueOnly_def Let_def
      removeSpans_no_span cleanText_trim_collapse)

text \<open>
  C2, as the code has it. Strings here are the strings of code units 0 to 255
  (Latin-1). For every such string \<open>s\<close> in which no opening parenthesis is
  followed by a closing one and no opening square bracket by a closing one,
  \<open>calculateSimilarity(s, s)\<close> is the exact match: similarity 1, correct, and
  nothing is sent to the embedding service. (Dialogue extraction, applied to the
  expected operand only, then removes nothing but white space that
  normalisation removes as well; within Latin-1 lower-casing acts on each
  character by itself and so commutes with the removal of white space.)
\<close>

theorem calculateSimilarity_same_string:
  "\<not> hasSpan (CHR ''('') (CHR '')'') s \<Longrightarrow> \<not> hasSpan (CHR ''['') (CHR '']'') s \<Longrightarrow>
   (\<exists>r. calculateSimilarity emb (Str s) (Str s) = (Inr r, []) \<and>
        similarity r = Num 1 \<and> isCorrect r \<and> exactMatch (detailedAnalysis r) \<and>
        feedback r = PerfectMatch)"
  by (simp add: calculateSimilarity_exact expectedClean_no_span exactResult_def)

text \<open>C2 as worded speaks of every string. The expected line of the
  specification's own scenario, typed back verbatim, has its stage direction
  removed on the expected side only: the similarity is 1/2, and the answer
  counts as wrong.\<close>

theorem calculateSimilarity_same_string_counterexample:
  "similarity (projr (fst (calculateSimilarity failingService (Str ''(nervously) Ok...'')
                             (Str ''(nervously) Ok...'')))) = Num (1 / 2) \<and>
   \<not> isCorrect (projr (fst (calculateSimilarity failingService (Str ''(nervously) Ok...'')
                              (Str ''(nervously) Ok...''))))"
proof -
  have e: "extractDialogueOnly ''(nervously) Ok...'' = ''Ok...''"
    by code_simp
  have c: "cleanTextForComparison ''(nervously) Ok...'' = ''(nervously) ok''"
      "cleanTextForComparison ''Ok...'' = ''ok''"
    by code_simp+
  have v: "\<not> isVeryCloseMatch ''(nervously) ok'' ''ok''"
    by code_simp
  have w: "calculateWordSimilarity ''(nervously) ok'' ''ok'' = 1 / 2"
      "calculateCharacterSimilarity ''(nervously) ok'' ''ok'' = 1 / 7"
    by code_simp+
  have "calculateSimilarity failingService (Str ''(nervously) Ok...'') (Str ''(nervously) Ok...'')
          = (Inr (scoredResult ''Ok...'' (1 / 2) (1 / 7) None (Num (1 / 2))), [])"
    by (simp add: calculateSimilarity_def calculateSimilarityTry_def Let_def e c v w)
  then show ?thesis
    by (simp add: scoredResult_def js_ge_def)
qed

text \<open>The theorem at a line without stage directions.\<close>

theorem calculateSimilarity_same_string_witness:
  "\<not> hasSpan (CHR ''('') (CHR '')'') ''Hello world'' \<and>
   \<not> hasSpan (CHR ''['') (CHR '']'') ''Hello world'' \<and>
   (\<exists>r. calculateSimilarity failingService (Str ''Hello world'') (Str ''Hello world'')
          = (Inr r, []) \<and> similarity r = Num 1 \<and> isCorrect r)"
proof -
  have h: "\<not> hasSpan (CHR ''('') (CHR '')'') ''Hello world''"
      "\<not> hasSpan (CHR ''['') (CHR '']'') ''Hello world''"
    by (rule no_opening_no_span, simp)+
  from calculateSimilarity_same_string [OF h, of failingService] h show ?thesis
    by blast
qed

end
